theory Spec2Isabelle
  imports Complex_Main "HOL-Library.Sublist" "HOL-Library.List_Lexorder" "HOL-Library.Char_ord"
begin

section \<open>JavaScript primitives used by the engine\<close>

text \<open>
  Numbers that the claims take as integers (seed, index, offset, limit, totalRecords)
  are modelled as unbounded \<open>int\<close>; this agrees with the IEEE doubles of the source as
  long as every intermediate value stays below \<open>2 ^ 53\<close> in magnitude. Fractional
  numbers are modelled as \<open>real\<close>; rounding is modelled in the error selector, where a
  result depends on it, and not elsewhere.

  The remainder operator \<open>%\<close> of the source truncates towards zero: the result carries
  the sign of the dividend.
\<close>

definition js_rem :: "int \<Rightarrow> int \<Rightarrow> int" where
  "js_rem a b = sgn a * (\<bar>a\<bar> mod \<bar>b\<bar>)"

definition digit_char :: "nat \<Rightarrow> char" where
  "digit_char d = ''0123456789abcdefghijklmnopqrstuvwxyz'' ! d"

function digits :: "nat \<Rightarrow> nat \<Rightarrow> string" where
  "digits b n = (if b < 2 \<or> n < b then [digit_char n]
                 else digits b (n div b) @ [digit_char (n mod b)])"
  by pat_completeness auto
termination
  by (relation "measure snd") auto

declare digits.simps [simp del]

text \<open>\<open>Number.prototype.toString(radix)\<close> on an integer.\<close>

definition toString_radix :: "nat \<Rightarrow> int \<Rightarrow> string" where
  "toString_radix b n =
     (if n < 0 then CHR ''-'' # digits b (nat (- n)) else digits b (nat n))"

definition padStart :: "nat \<Rightarrow> char \<Rightarrow> string \<Rightarrow> string" where
  "padStart n c s = replicate (n - length s) c @ s"

text \<open>\<open>String.prototype.slice(a, b)\<close> for \<open>0 \<le> a \<le> b\<close>, the only way the source calls it.\<close>

definition slice :: "nat \<Rightarrow> nat \<Rightarrow> string \<Rightarrow> string" where
  "slice a b s = take (b - a) (drop a s)"

text \<open>\<open>Math.trunc\<close>, as applied by the \<open>Date\<close> constructor to its time value.\<close>

definition js_trunc :: "real \<Rightarrow> int" where
  "js_trunc x = (if 0 \<le> x then \<lfloor>x\<rfloor> else \<lceil>x\<rceil>)"

section \<open>Data model of the generator\<close>

text \<open>A bound \<open>min\<close>/\<open>max\<close> is declared \<open>number | string\<close>.\<close>

datatype bound = BNum real | BStr string

datatype jsval = VUndefined | VBool bool | VNum real | VStr string

record FieldConstraints =
  c_min :: "bound option"
  c_max :: "bound option"
  c_length :: "real option"
  c_pattern :: "string option"
  c_enum :: "string list option"
  c_format :: "string option"

text \<open>
  The field \<open>type\<close> is kept as an optional string: the declared union of six names does
  not stop a schema that arrives as JSON from carrying any other name or none, and the
  source tests for both.
\<close>

record FieldDefinition =
  f_type :: "string option"
  f_required :: "bool option"
  f_default :: "jsval option"
  f_constraints :: "FieldConstraints option"

text \<open>A schema is the list of its entries, in the order of \<open>Object.entries\<close>.\<close>

type_synonym DataSchema = "(string \<times> FieldDefinition) list"

type_synonym MockRecord = "(string \<times> jsval) list"

record DataGeneratorState =
  currentOffset :: int
  totalRecords :: int
  generatedCount :: int
  schema :: DataSchema
  seed :: int

record GenerationConfig =
  cfg_totalRecords :: int
  cfg_batchSize :: int
  cfg_schema :: DataSchema
  cfg_seed :: "int option"

text \<open>\<open>Partial<GenerationConfig>\<close>: every field may be absent.\<close>

record PartialGenerationConfig =
  p_totalRecords :: "int option"
  p_batchSize :: "int option"
  p_schema :: "DataSchema option"
  p_seed :: "int option"

text \<open>
  The engine object: its \<open>state\<close> and the variable \<open>currentSeed\<close> captured by the closure
  \<open>seededRandom\<close>.
\<close>

record DataGenerator =
  state :: DataGeneratorState
  currentSeed :: int

datatype error = Error string | RangeError string | TypeError string

text \<open>
  What the generator reads from the JavaScript runtime: the wall clock, the parsing of a
  date string (\<open>None\<close> is an invalid date) and the rendering of a time value by
  \<open>toISOString\<close>.
\<close>

record runtime =
  now :: int
  parseDate :: "string \<Rightarrow> real option"
  toISOString :: "int \<Rightarrow> string"

section \<open>Seeded random numbers and identifiers\<close>

definition createSeededRandom :: "int \<Rightarrow> int" where
  "createSeededRandom sd = sd"

definition seededRandom :: "int \<Rightarrow> real \<times> int" where
  "seededRandom s =
     (let s' = js_rem (s * 9301 + 49297) 233280 in (real_of_int s' / 233280, s'))"

definition generateDeterministicUuid :: "int \<Rightarrow> string" where
  "generateDeterministicUuid sd =
     (let seedStr = padStart 8 CHR ''0'' (toString_radix 16 sd) in
        slice 0 8 seedStr @ ''-'' @ slice 0 4 seedStr @ ''-4'' @ slice 1 4 seedStr
          @ ''-8'' @ slice 2 5 seedStr @ ''-'' @ slice 0 12 seedStr)"

definition generateId :: "DataGeneratorState \<Rightarrow> int \<Rightarrow> string" where
  "generateId st index = generateDeterministicUuid (seed st + index)"

section \<open>Field synthesis\<close>

text \<open>
  Every function below that draws from \<open>seededRandom\<close> takes the closure's
  \<open>currentSeed\<close> and returns it updated. A function that can throw returns
  \<open>error + value\<close> together with the \<open>currentSeed\<close> reached when it threw: the
  closure keeps the draws made before an exception.
\<close>

definition chars :: string where
  "chars = ''ABCDEFGHIJKLMNOPQRSTUVWXYZabcdefghijklmnopqrstuvwxyz0123456789''"

text \<open>\<open>String.prototype.charAt\<close>: the empty string out of range.\<close>

definition charAt :: "string \<Rightarrow> int \<Rightarrow> string" where
  "charAt s k = (if 0 \<le> k \<and> k < int (length s) then [s ! nat k] else [])"

text \<open>The loop \<open>for (let i = 0; i < length; i++) result += chars.charAt(...)\<close>.\<close>

fun random_chars :: "nat \<Rightarrow> int \<Rightarrow> string \<times> int" where
  "random_chars 0 s = ([], s)"
| "random_chars (Suc n) s =
     (let (r, s1) = seededRandom s;
          c = charAt chars \<lfloor>r * real (length chars)\<rfloor>;
          (rest, s2) = random_chars n s1
      in (c @ rest, s2))"

text \<open>How often a loop \<open>for (i = 0; i < length; i++)\<close> runs.\<close>

definition loop_count :: "real \<Rightarrow> nat" where
  "loop_count len = (if len \<le> 0 then 0 else nat \<lceil>len\<rceil>)"

text \<open>
  \<open>constraints?.length || (constraints?.min && constraints?.max && typeof ... ? Math.floor(...) : 10)\<close>:
  the random draw happens only when both bounds are non-zero numbers.
\<close>

definition derived_length :: "FieldConstraints option \<Rightarrow> int \<Rightarrow> real \<times> int" where
  "derived_length constraints s =
     (case constraints of
        None \<Rightarrow> (10, s)
      | Some c \<Rightarrow>
          (case (c_min c, c_max c) of
             (Some (BNum lo), Some (BNum hi)) \<Rightarrow>
               if lo \<noteq> 0 \<and> hi \<noteq> 0
               then (let (r, s1) = seededRandom s
                     in (real_of_int \<lfloor>r * (hi - lo) + lo\<rfloor>, s1))
               else (10, s)
           | _ \<Rightarrow> (10, s)))"

definition string_length :: "FieldConstraints option \<Rightarrow> int \<Rightarrow> real \<times> int" where
  "string_length constraints s =
     (case (case constraints of None \<Rightarrow> None | Some c \<Rightarrow> c_length c) of
        Some l \<Rightarrow> if l \<noteq> 0 then (l, s) else derived_length constraints s
      | None \<Rightarrow> derived_length constraints s)"

text \<open>\<open>constraints?.pattern\<close> when it is truthy (present and not empty).\<close>

definition truthy_pattern :: "FieldConstraints option \<Rightarrow> string option" where
  "truthy_pattern constraints =
     (case constraints of
        None \<Rightarrow> None
      | Some c \<Rightarrow> (case c_pattern c of
                     None \<Rightarrow> None
                   | Some p \<Rightarrow> if p = [] then None else Some p))"

text \<open>The object literal \<open>{ length }\<close>.\<close>

definition only_length :: "real \<Rightarrow> FieldConstraints" where
  "only_length l =
     \<lparr>c_min = None, c_max = None, c_length = Some l, c_pattern = None,
      c_enum = None, c_format = None\<rparr>"

definition domains :: "string list" where
  "domains = [''example.com'', ''test.org'', ''demo.net'']"

text \<open>An array read inside a template literal: out of range it renders \<open>undefined\<close>.\<close>

definition template_get :: "string list \<Rightarrow> int \<Rightarrow> string" where
  "template_get xs k = (if 0 \<le> k \<and> k < int (length xs) then xs ! nat k else ''undefined'')"

function generateString :: "FieldConstraints option \<Rightarrow> int \<Rightarrow> string \<times> int"
  and generateStringFromPattern :: "string \<Rightarrow> real \<Rightarrow> int \<Rightarrow> string \<times> int"
where
  "generateString constraints s =
     (case string_length constraints s of
        (len, s1) \<Rightarrow>
          (case truthy_pattern constraints of
             Some p \<Rightarrow> generateStringFromPattern p len s1
           | None \<Rightarrow> random_chars (loop_count len) s1))"
| "generateStringFromPattern pattern len s =
     (if pattern = ''email'' then
        (case seededRandom s of
           (r, s1) \<Rightarrow>
             (case generateString (Some (only_length 8)) s1 of
                (username, s2) \<Rightarrow>
                  (username @ ''@'' @ template_get domains \<lfloor>r * real (length domains)\<rfloor>, s2)))
      else if pattern = ''phone'' then
        (case seededRandom s of
           (r1, s1) \<Rightarrow>
             (case seededRandom s1 of
                (r2, s2) \<Rightarrow>
                  (case seededRandom s2 of
                     (r3, s3) \<Rightarrow>
                       (''+1'' @ toString_radix 10 \<lfloor>r1 * 900 + 100\<rfloor>
                          @ toString_radix 10 \<lfloor>r2 * 900 + 100\<rfloor>
                          @ toString_radix 10 \<lfloor>r3 * 9000 + 1000\<rfloor>, s3))))
      else generateString (Some (only_length len)) s)"
  by pat_completeness auto
termination
  by (relation "measure (\<lambda>x. case x of
          Inl (c, s) \<Rightarrow> (if truthy_pattern c = None then 0 else 2)
        | Inr (p, l, s) \<Rightarrow> 1)")
     (auto simp: truthy_pattern_def only_length_def)

declare generateString.simps [simp del] generateStringFromPattern.simps [simp del]

definition number_bound :: "bound option \<Rightarrow> real \<Rightarrow> real" where
  "number_bound b d = (case b of Some (BNum x) \<Rightarrow> x | _ \<Rightarrow> d)"

definition generateNumber :: "FieldConstraints option \<Rightarrow> int \<Rightarrow> real \<times> int" where
  "generateNumber constraints s =
     (let lo = number_bound (case constraints of None \<Rightarrow> None | Some c \<Rightarrow> c_min c) 0;
          hi = number_bound (case constraints of None \<Rightarrow> None | Some c \<Rightarrow> c_max c) 1000;
          (r, s1) = seededRandom s
      in if (case constraints of None \<Rightarrow> None | Some c \<Rightarrow> c_format c) = Some ''integer''
         then (real_of_int \<lfloor>r * (hi - lo) + lo\<rfloor>, s1)
         else (r * (hi - lo) + lo, s1))"

text \<open>
  \<open>new Date(x)\<close> for a date string when the bound is a non-empty string, the default
  otherwise. \<open>None\<close> is the invalid date, whose time value is \<open>NaN\<close>.
\<close>

definition date_bound :: "runtime \<Rightarrow> bound option \<Rightarrow> real \<Rightarrow> real option" where
  "date_bound rt b d =
     (case b of Some (BStr t) \<Rightarrow> if t \<noteq> [] then parseDate rt t else Some d | _ \<Rightarrow> Some d)"

text \<open>
  \<open>new Date(timestamp).toISOString()\<close>: the constructor truncates the time value and
  rejects one beyond \<open>8.64e15\<close> ms; \<open>toISOString\<close> throws a \<open>RangeError\<close> on an invalid date.
  The draw is made before the exception.
\<close>

definition generateIso8601Date ::
  "runtime \<Rightarrow> FieldConstraints option \<Rightarrow> int \<Rightarrow> (error + string) \<times> int" where
  "generateIso8601Date rt constraints s =
     (let minDate = date_bound rt (case constraints of None \<Rightarrow> None | Some c \<Rightarrow> c_min c)
                      (real_of_int (now rt) - 365 * 24 * 60 * 60 * 1000);
          maxDate = date_bound rt (case constraints of None \<Rightarrow> None | Some c \<Rightarrow> c_max c)
                      (now rt);
          (r, s1) = seededRandom s
      in case (minDate, maxDate) of
           (Some lo, Some hi) \<Rightarrow>
             (let timestamp = lo + r * (hi - lo)
              in if \<bar>timestamp\<bar> \<le> 8640000000000000
                 then (Inr (toISOString rt (js_trunc timestamp)), s1)
                 else (Inl (RangeError ''Invalid time value''), s1))
         | _ \<Rightarrow> (Inl (RangeError ''Invalid time value''), s1))"

text \<open>An array read: \<open>undefined\<close> out of range.\<close>

definition array_get :: "string list \<Rightarrow> int \<Rightarrow> jsval" where
  "array_get xs k = (if 0 \<le> k \<and> k < int (length xs) then VStr (xs ! nat k) else VUndefined)"

definition generateEnum :: "FieldConstraints option \<Rightarrow> int \<Rightarrow> (error + jsval) \<times> int" where
  "generateEnum constraints s =
     (case (case constraints of None \<Rightarrow> None | Some c \<Rightarrow> c_enum c) of
        None \<Rightarrow> (Inl (Error ''Enum field must have enum constraint with values''), s)
      | Some vs \<Rightarrow>
          if length vs = 0
          then (Inl (Error ''Enum field must have enum constraint with values''), s)
          else (let (r, s1) = seededRandom s
                in (Inr (array_get vs \<lfloor>r * real (length vs)\<rfloor>), s1)))"

text \<open>The \<open>switch (type)\<close> of \<open>generateFieldValue\<close>.\<close>

definition dispatch_type ::
  "runtime \<Rightarrow> DataGeneratorState \<Rightarrow> FieldDefinition \<Rightarrow> int \<Rightarrow> int \<Rightarrow> (error + jsval) \<times> int"
where
  "dispatch_type rt st fieldDef index s =
     (if f_type fieldDef = Some ''uuid'' then
        (Inr (VStr (generateDeterministicUuid (seed st + index))), s)
      else if f_type fieldDef = Some ''string'' then
        (case generateString (f_constraints fieldDef) s of (v, s1) \<Rightarrow> (Inr (VStr v), s1))
      else if f_type fieldDef = Some ''number'' then
        (case generateNumber (f_constraints fieldDef) s of (v, s1) \<Rightarrow> (Inr (VNum v), s1))
      else if f_type fieldDef = Some ''boolean'' then
        (case seededRandom s of (r, s1) \<Rightarrow> (Inr (VBool (r < 0.5)), s1))
      else if f_type fieldDef = Some ''iso8601'' then
        (case generateIso8601Date rt (f_constraints fieldDef) s of
           (Inl e, s1) \<Rightarrow> (Inl e, s1)
         | (Inr v, s1) \<Rightarrow> (Inr (VStr v), s1))
      else if f_type fieldDef = Some ''enum'' then
        generateEnum (f_constraints fieldDef) s
      else
        (Inl (Error (''Unsupported field type: ''
                @ (case f_type fieldDef of None \<Rightarrow> ''undefined'' | Some t \<Rightarrow> t))), s))"

text \<open>\<open>required = true\<close> in the destructuring: the default applies when the field is absent.\<close>

definition is_required :: "FieldDefinition \<Rightarrow> bool" where
  "is_required fieldDef = (case f_required fieldDef of None \<Rightarrow> True | Some b \<Rightarrow> b)"

definition generateFieldValue ::
  "runtime \<Rightarrow> DataGeneratorState \<Rightarrow> FieldDefinition \<Rightarrow> int \<Rightarrow> int \<Rightarrow> (error + jsval) \<times> int"
where
  "generateFieldValue rt st fieldDef index s =
     (case f_default fieldDef of
        None \<Rightarrow> dispatch_type rt st fieldDef index s
      | Some defaultValue \<Rightarrow>
          if \<not> is_required fieldDef then (Inr defaultValue, s)
          else (case seededRandom s of
                  (r, s1) \<Rightarrow>
                    if r < 0.1 then (Inr defaultValue, s1)
                    else dispatch_type rt st fieldDef index s1))"

section \<open>Records and batches\<close>

text \<open>The assignment \<open>record[fieldName] = value\<close> on an object kept as its entry list.\<close>

fun set_field :: "string \<Rightarrow> jsval \<Rightarrow> MockRecord \<Rightarrow> MockRecord" where
  "set_field k v [] = [(k, v)]"
| "set_field k v ((k', v') # r) =
     (if k = k' then (k, v) # r else (k', v') # set_field k v r)"

text \<open>The loop over \<open>Object.entries(this.state.schema)\<close> in \<open>generateRecord\<close>.\<close>

fun generateFields ::
  "runtime \<Rightarrow> DataGeneratorState \<Rightarrow> DataSchema \<Rightarrow> int \<Rightarrow> MockRecord \<Rightarrow> int
     \<Rightarrow> (error + MockRecord) \<times> int"
where
  "generateFields rt st [] index record s = (Inr record, s)"
| "generateFields rt st ((fieldName, fieldDef) # rest) index record s =
     (case generateFieldValue rt st fieldDef index s of
        (Inl e, s1) \<Rightarrow> (Inl e, s1)
      | (Inr v, s1) \<Rightarrow> generateFields rt st rest index (set_field fieldName v record) s1)"

definition generateRecord ::
  "runtime \<Rightarrow> DataGeneratorState \<Rightarrow> int \<Rightarrow> int \<Rightarrow> (error + MockRecord) \<times> int" where
  "generateRecord rt st index s =
     generateFields rt st (schema st) index [(''id'', VStr (generateId st index))] s"

record BatchResult =
  records :: "MockRecord list"
  hasMore :: bool
  nextOffset :: "string option"
  totalCount :: int

text \<open>The loop \<open>for (let i = startIndex; i < endIndex; i++)\<close> of \<open>generateBatch\<close>.\<close>

function batch_loop ::
  "runtime \<Rightarrow> DataGeneratorState \<Rightarrow> int \<Rightarrow> int \<Rightarrow> MockRecord list \<Rightarrow> int
     \<Rightarrow> (error + MockRecord list) \<times> int"
where
  "batch_loop rt st i endIndex recs s =
     (if i < endIndex then
        (case generateRecord rt st i s of
           (Inl e, s1) \<Rightarrow> (Inl e, s1)
         | (Inr r, s1) \<Rightarrow> batch_loop rt st (i + 1) endIndex (recs @ [r]) s1)
      else (Inr recs, s))"
  by pat_completeness auto
termination
  by (relation "measure (\<lambda>(rt, st, i, endIndex, recs, s). nat (endIndex - i))") auto

declare batch_loop.simps [simp del]

text \<open>\<open>x || undefined\<close> on an optional string: the empty string is falsy.\<close>

definition or_undefined :: "string option \<Rightarrow> string option" where
  "or_undefined x = (case x of None \<Rightarrow> None | Some t \<Rightarrow> if t = [] then None else Some t)"

definition generateBatch ::
  "runtime \<Rightarrow> DataGenerator \<Rightarrow> int \<Rightarrow> int \<Rightarrow> (error + BatchResult) \<times> DataGenerator" where
  "generateBatch rt g offset limit =
     (let startIndex = offset;
          endIndex = min (startIndex + limit) (totalRecords (state g))
      in case batch_loop rt (state g) startIndex endIndex [] (currentSeed g) of
           (Inl e, s1) \<Rightarrow> (Inl e, g\<lparr>currentSeed := s1\<rparr>)
         | (Inr recs, s1) \<Rightarrow>
             (let more = endIndex < totalRecords (state g);
                  next = (if more then Some (toString_radix 10 endIndex) else None)
              in (Inr \<lparr>records = recs, hasMore = more, nextOffset = or_undefined next,
                       totalCount = totalRecords (state g)\<rparr>,
                  g\<lparr>currentSeed := s1\<rparr>)))"

section \<open>Construction, reset and snapshots\<close>

text \<open>\<open>config.seed || Date.now()\<close>: an absent seed and the seed 0 both take the clock.\<close>

definition new_DataGenerator :: "runtime \<Rightarrow> GenerationConfig \<Rightarrow> DataGenerator" where
  "new_DataGenerator rt config =
     (let sd = (case cfg_seed config of
                  None \<Rightarrow> now rt
                | Some k \<Rightarrow> if k \<noteq> 0 then k else now rt);
          st = \<lparr>currentOffset = 0, totalRecords = cfg_totalRecords config,
                generatedCount = 0, schema = cfg_schema config, seed = sd\<rparr>
      in \<lparr>state = st, currentSeed = createSeededRandom (seed st)\<rparr>)"

definition reset :: "DataGenerator \<Rightarrow> PartialGenerationConfig \<Rightarrow> DataGenerator" where
  "reset g config =
     (let g1 = (case p_totalRecords config of
                  None \<Rightarrow> g
                | Some n \<Rightarrow> g\<lparr>state := (state g)\<lparr>totalRecords := n\<rparr>\<rparr>);
          g2 = (case p_schema config of
                  None \<Rightarrow> g1
                | Some sc \<Rightarrow> g1\<lparr>state := (state g1)\<lparr>schema := sc\<rparr>\<rparr>);
          g3 = (case p_seed config of
                  None \<Rightarrow> g2
                | Some k \<Rightarrow>
                    (let g' = g2\<lparr>state := (state g2)\<lparr>seed := k\<rparr>\<rparr>
                     in g'\<lparr>currentSeed := createSeededRandom (seed (state g'))\<rparr>))
      in g3\<lparr>state := (state g3)\<lparr>currentOffset := 0, generatedCount := 0\<rparr>\<rparr>)"

definition updateSchema :: "DataGenerator \<Rightarrow> DataSchema \<Rightarrow> DataGenerator" where
  "updateSchema g sc = g\<lparr>state := (state g)\<lparr>schema := sc\<rparr>\<rparr>"

definition getState :: "DataGenerator \<Rightarrow> DataGeneratorState" where
  "getState g = state g"

record Metrics =
  m_totalRecords :: int
  m_generatedCount :: int
  m_currentOffset :: int
  m_seed :: int
  schemaFields :: nat

definition getMetrics :: "DataGenerator \<Rightarrow> Metrics" where
  "getMetrics g =
     \<lparr>m_totalRecords = totalRecords (state g),
      m_generatedCount = generatedCount (state g),
      m_currentOffset = currentOffset (state g),
      m_seed = seed (state g),
      schemaFields = length (schema (state g))\<rparr>"

text \<open>
  The public operations of an engine, for the states an engine can reach. An exception
  from \<open>generateBatch\<close> leaves the engine with the draws made so far.
\<close>

datatype operation =
  GenerateBatch int int
| Reset PartialGenerationConfig
| UpdateSchema DataSchema
| GetState
| GetMetrics

fun apply_operation :: "runtime \<Rightarrow> DataGenerator \<Rightarrow> operation \<Rightarrow> DataGenerator" where
  "apply_operation rt g (GenerateBatch offset limit) = snd (generateBatch rt g offset limit)"
| "apply_operation rt g (Reset config) = reset g config"
| "apply_operation rt g (UpdateSchema sc) = updateSchema g sc"
| "apply_operation rt g GetState = g"
| "apply_operation rt g GetMetrics = g"

text \<open>
  The clock and the date functions may answer differently at every call, so each
  operation of a run comes with the runtime it meets.
\<close>

inductive reachable :: "DataGenerator \<Rightarrow> bool" where
  constructed: "reachable (new_DataGenerator rt config)"
| operated: "reachable g \<Longrightarrow> reachable (apply_operation rt g op)"

section \<open>Schema validation\<close>

text \<open>
  The comparison \<open>min > max\<close> of JavaScript on \<open>number | string\<close>: two numbers
  numerically, two strings by their characters, a number and a string after the string
  is converted to a number (\<open>None\<close> is \<open>NaN\<close>, which compares false). The conversion
  belongs to the language runtime and is a parameter.
\<close>

fun js_gt :: "(string \<Rightarrow> real option) \<Rightarrow> bound \<Rightarrow> bound \<Rightarrow> bool" where
  "js_gt toNumber (BNum a) (BNum b) = (b < a)"
| "js_gt toNumber (BStr a) (BStr b) = (b < a)"
| "js_gt toNumber (BNum a) (BStr b) = (case toNumber b of None \<Rightarrow> False | Some y \<Rightarrow> y < a)"
| "js_gt toNumber (BStr a) (BNum b) = (case toNumber a of None \<Rightarrow> False | Some x \<Rightarrow> b < x)"

definition validTypes :: "string list" where
  "validTypes = [''uuid'', ''string'', ''number'', ''boolean'', ''iso8601'', ''enum'']"

text \<open>\<open>!fieldDef.type\<close>: the type is absent or the empty string.\<close>

definition missing_type :: "FieldDefinition \<Rightarrow> bool" where
  "missing_type fieldDef = (case f_type fieldDef of None \<Rightarrow> True | Some t \<Rightarrow> t = [])"

text \<open>\<open>!fieldDef.constraints?.enum || fieldDef.constraints.enum.length === 0\<close>.\<close>

definition lacks_enum :: "FieldDefinition \<Rightarrow> bool" where
  "lacks_enum fieldDef =
     (case f_constraints fieldDef of
        None \<Rightarrow> True
      | Some c \<Rightarrow> (case c_enum c of None \<Rightarrow> True | Some vs \<Rightarrow> length vs = 0))"

definition min_exceeds_max :: "(string \<Rightarrow> real option) \<Rightarrow> FieldConstraints \<Rightarrow> bool" where
  "min_exceeds_max toNumber c =
     (case (c_min c, c_max c) of
        (Some lo, Some hi) \<Rightarrow> js_gt toNumber lo hi
      | _ \<Rightarrow> False)"

definition negative_length :: "FieldConstraints \<Rightarrow> bool" where
  "negative_length c = (case c_length c of None \<Rightarrow> False | Some l \<Rightarrow> l < 0)"

text \<open>The errors one field adds, in the order the source pushes them.\<close>

definition field_errors ::
  "(string \<Rightarrow> real option) \<Rightarrow> string \<Rightarrow> FieldDefinition \<Rightarrow> string list" where
  "field_errors toNumber fieldName fieldDef =
     (if missing_type fieldDef then [''Field '' @ [CHR 0x27] @ fieldName @ [CHR 0x27] @ '' missing type'']
      else
        (if the (f_type fieldDef) \<notin> set validTypes
         then [''Field '' @ [CHR 0x27] @ fieldName @ [CHR 0x27] @ '' has invalid type ''
                 @ [CHR 0x27] @ the (f_type fieldDef) @ [CHR 0x27]]
         else [])
        @ (if f_type fieldDef = Some ''enum'' \<and> lacks_enum fieldDef
           then [''Field '' @ [CHR 0x27] @ fieldName @ [CHR 0x27] @ '' of type ''
                   @ [CHR 0x27] @ ''enum'' @ [CHR 0x27]
                   @ '' must have enum constraint with values'']
           else [])
        @ (case f_constraints fieldDef of
             None \<Rightarrow> []
           | Some c \<Rightarrow>
               (if min_exceeds_max toNumber c
                then [''Field '' @ [CHR 0x27] @ fieldName @ [CHR 0x27]
                        @ '' min constraint cannot be greater than max'']
                else [])
               @ (if negative_length c
                  then [''Field '' @ [CHR 0x27] @ fieldName @ [CHR 0x27]
                          @ '' length constraint cannot be negative'']
                  else [])))"

text \<open>
  What a caller can hand to \<open>validateSchema\<close>: the schema may be \<open>null\<close> or \<open>undefined\<close>
  instead of an object, and so may each of its field definitions (the static types do
  not stop a JSON body or a test from passing them). A schema or a field definition that
  is another primitive behaves as an object without properties.
\<close>

datatype raw_field = NullField | FieldObject FieldDefinition

datatype raw_schema = NullSchema | SchemaObject "(string \<times> raw_field) list"

text \<open>A typed schema as the object it is.\<close>

definition as_object :: "DataSchema \<Rightarrow> raw_schema" where
  "as_object sc = SchemaObject (map (\<lambda>(fieldName, fieldDef). (fieldName, FieldObject fieldDef)) sc)"

text \<open>
  The loop of \<open>validateSchema\<close>, pushing onto \<open>errors\<close>. Reading \<open>fieldDef.type\<close> of a
  \<open>null\<close> field definition throws a \<open>TypeError\<close>, which ends the call.
\<close>

fun validate_loop ::
  "(string \<Rightarrow> real option) \<Rightarrow> (string \<times> raw_field) list \<Rightarrow> string list
     \<Rightarrow> error + string list" where
  "validate_loop toNumber [] errs = Inr errs"
| "validate_loop toNumber ((fieldName, NullField) # rest) errs =
     Inl (TypeError ''Cannot read properties of null (reading 'type')'')"
| "validate_loop toNumber ((fieldName, FieldObject fieldDef) # rest) errs =
     validate_loop toNumber rest (errs @ field_errors toNumber fieldName fieldDef)"

record ValidationResult =
  valid :: bool
  errors :: "string list"

text \<open>\<open>Object.entries(schema)\<close> throws a \<open>TypeError\<close> on \<open>null\<close> and \<open>undefined\<close>.\<close>

fun validateSchema ::
  "(string \<Rightarrow> real option) \<Rightarrow> raw_schema \<Rightarrow> error + ValidationResult" where
  "validateSchema toNumber NullSchema =
     Inl (TypeError ''Cannot convert undefined or null to object'')"
| "validateSchema toNumber (SchemaObject entries) =
     (case validate_loop toNumber entries [] of
        Inl e \<Rightarrow> Inl e
      | Inr errs \<Rightarrow> Inr \<lparr>valid = (length errs = 0), errors = errs\<rparr>)"

section \<open>Route filters of the middleware\<close>

text \<open>\<open>String.prototype.includes\<close>; \<open>startsWith\<close> is \<^const>\<open>prefix\<close>.\<close>

fun js_includes :: "string \<Rightarrow> string \<Rightarrow> bool" where
  "js_includes [] t = (t = [])"
| "js_includes (c # cs) t = (prefix t (c # cs) \<or> js_includes cs t)"

text \<open>
  The tail shared by \<open>shouldApplyErrors\<close> and \<open>shouldApplyLatency\<close>: a non-empty
  \<open>applyToRoutes\<close> decides alone, then a non-empty \<open>excludeRoutes\<close>, then every route.
\<close>

definition route_selected :: "string list option \<Rightarrow> string list option \<Rightarrow> string \<Rightarrow> bool" where
  "route_selected applyTo exclude path =
     (case (case applyTo of None \<Rightarrow> None | Some rs \<Rightarrow> if 0 < length rs then Some rs else None) of
        Some rs \<Rightarrow> list_ex (\<lambda>route. prefix route path) rs
      | None \<Rightarrow>
          (case (case exclude of None \<Rightarrow> None | Some rs \<Rightarrow> if 0 < length rs then Some rs else None) of
             Some rs \<Rightarrow> \<not> list_ex (\<lambda>route. prefix route path) rs
           | None \<Rightarrow> True))"

section \<open>Latency sampler\<close>

text \<open>
  The sampler computes with \<open>Math.log\<close>, \<open>Math.sqrt\<close>, division by zero and \<open>NaN\<close>, so
  its numbers are modelled with the special values of IEEE arithmetic: a finite value,
  the two infinities, and \<open>NaN\<close>. Finite values are reals: rounding, overflow of a finite
  result and the sign of zero are not modelled (every zero is taken as \<open>+0\<close>, which is what
  \<open>max - min\<close> gives for equal operands).
\<close>

datatype jsnum = Fin real | PInf | NInf | NaN

fun js_neg :: "jsnum \<Rightarrow> jsnum" where
  "js_neg (Fin x) = Fin (- x)"
| "js_neg PInf = NInf"
| "js_neg NInf = PInf"
| "js_neg NaN = NaN"

fun js_add :: "jsnum \<Rightarrow> jsnum \<Rightarrow> jsnum" where
  "js_add NaN y = NaN"
| "js_add x NaN = NaN"
| "js_add (Fin x) (Fin y) = Fin (x + y)"
| "js_add PInf NInf = NaN"
| "js_add NInf PInf = NaN"
| "js_add PInf y = PInf"
| "js_add NInf y = NInf"
| "js_add (Fin x) y = y"

text \<open>The sign of a number that is not \<open>NaN\<close>, for products and quotients.\<close>

fun js_sign :: "jsnum \<Rightarrow> int" where
  "js_sign (Fin x) = (if x < 0 then - 1 else if x = 0 then 0 else 1)"
| "js_sign PInf = 1"
| "js_sign NInf = - 1"
| "js_sign NaN = 0"

definition signed_inf :: "int \<Rightarrow> jsnum" where
  "signed_inf k = (if k < 0 then NInf else if k = 0 then NaN else PInf)"

fun js_mul :: "jsnum \<Rightarrow> jsnum \<Rightarrow> jsnum" where
  "js_mul NaN y = NaN"
| "js_mul x NaN = NaN"
| "js_mul (Fin x) (Fin y) = Fin (x * y)"
| "js_mul x y = signed_inf (js_sign x * js_sign y)"

fun js_div :: "jsnum \<Rightarrow> jsnum \<Rightarrow> jsnum" where
  "js_div NaN y = NaN"
| "js_div x NaN = NaN"
| "js_div (Fin x) (Fin y) = (if y = 0 then signed_inf (js_sign (Fin x)) else Fin (x / y))"
| "js_div (Fin x) y = Fin 0"
| "js_div x (Fin y) = (if y < 0 then js_neg x else x)"
| "js_div x y = NaN"

fun js_log :: "jsnum \<Rightarrow> jsnum" where
  "js_log (Fin x) = (if x < 0 then NaN else if x = 0 then NInf else Fin (ln x))"
| "js_log PInf = PInf"
| "js_log NInf = NaN"
| "js_log NaN = NaN"

fun js_sqrt :: "jsnum \<Rightarrow> jsnum" where
  "js_sqrt (Fin x) = (if x < 0 then NaN else Fin (sqrt x))"
| "js_sqrt PInf = PInf"
| "js_sqrt NInf = NaN"
| "js_sqrt NaN = NaN"

fun js_cos :: "jsnum \<Rightarrow> jsnum" where
  "js_cos (Fin x) = Fin (cos x)"
| "js_cos x = NaN"

text \<open>\<open>Math.min\<close> and \<open>Math.max\<close> of two numbers: \<open>NaN\<close> if either is.\<close>

fun js_min :: "jsnum \<Rightarrow> jsnum \<Rightarrow> jsnum" where
  "js_min NaN y = NaN"
| "js_min x NaN = NaN"
| "js_min (Fin x) (Fin y) = Fin (min x y)"
| "js_min NInf y = NInf"
| "js_min x NInf = NInf"
| "js_min PInf y = y"
| "js_min x PInf = x"

fun js_max :: "jsnum \<Rightarrow> jsnum \<Rightarrow> jsnum" where
  "js_max NaN y = NaN"
| "js_max x NaN = NaN"
| "js_max (Fin x) (Fin y) = Fin (max x y)"
| "js_max PInf y = PInf"
| "js_max x PInf = PInf"
| "js_max NInf y = y"
| "js_max x NInf = x"

record LatencyConfig =
  l_enabled :: bool
  minMs :: real
  maxMs :: real
  distribution :: string
  l_applyToRoutes :: "string list option"
  l_excludeRoutes :: "string list option"

text \<open>
  Every call of \<open>Math.random()\<close> is a parameter, in the order the source draws:
  \<open>u1\<close> then \<open>u2\<close>.
\<close>

definition generateNormalDistribution :: "real \<Rightarrow> real \<Rightarrow> real \<Rightarrow> real \<Rightarrow> jsnum" where
  "generateNormalDistribution lo hi u1 u2 =
     (let mean = Fin ((lo + hi) / 2);
          stdDev = Fin ((hi - lo) / 6);
          z0 = js_mul (js_sqrt (js_mul (Fin (- 2)) (js_log (Fin u1))))
                      (js_cos (Fin (2 * pi * u2)));
          v = js_add mean (js_mul z0 stdDev)
      in js_max (Fin lo) (js_min (Fin hi) v))"

definition generateExponentialDistribution :: "real \<Rightarrow> real \<Rightarrow> real \<Rightarrow> jsnum" where
  "generateExponentialDistribution lo hi u =
     (let lambda = js_div (Fin 1) (js_div (Fin (hi - lo)) (Fin 3));
          v = js_add (js_div (js_neg (js_log (Fin u))) lambda) (Fin lo)
      in js_max (Fin lo) (js_min (Fin hi) v))"

definition generateLatency :: "LatencyConfig \<Rightarrow> real \<Rightarrow> real \<Rightarrow> jsnum" where
  "generateLatency config u1 u2 =
     (if distribution config = ''uniform'' then
        Fin (u1 * (maxMs config - minMs config) + minMs config)
      else if distribution config = ''normal'' then
        generateNormalDistribution (minMs config) (maxMs config) u1 u2
      else if distribution config = ''exponential'' then
        generateExponentialDistribution (minMs config) (maxMs config) u1
      else
        Fin (u1 * (maxMs config - minMs config) + minMs config))"

definition shouldApplyLatency :: "LatencyConfig \<Rightarrow> string \<Rightarrow> bool" where
  "shouldApplyLatency config path =
     route_selected (l_applyToRoutes config) (l_excludeRoutes config) path"

text \<open>The delay \<open>injectLatency\<close> waits for before \<open>next()\<close>; \<open>None\<close> when it does not wait.\<close>

definition injectLatency :: "LatencyConfig \<Rightarrow> string \<Rightarrow> real \<Rightarrow> real \<Rightarrow> jsnum option" where
  "injectLatency config path u1 u2 =
     (if \<not> l_enabled config then None
      else if \<not> shouldApplyLatency config path then None
      else Some (generateLatency config u1 u2))"

section \<open>Error selector\<close>

record ErrorType =
  e_type :: string
  statusCode :: int
  message :: string
  probability :: real

record ErrorInjectionConfig =
  e_enabled :: bool
  errorRate :: real
  errorTypes :: "ErrorType list"
  e_applyToRoutes :: "string list option"
  e_excludeRoutes :: "string list option"

record ErrorInjectionMiddleware =
  config :: ErrorInjectionConfig
  errorCount :: nat
  totalRequests :: nat

definition shouldApplyErrors :: "ErrorInjectionConfig \<Rightarrow> string \<Rightarrow> bool" where
  "shouldApplyErrors cfg path =
     (if js_includes path ''health'' \<or> js_includes path ''metrics'' then False
      else route_selected (e_applyToRoutes cfg) (e_excludeRoutes cfg) path)"

text \<open>
  The selector adds, multiplies and subtracts doubles. For finite doubles each of these
  operations returns the exact result rounded to a double, so the arithmetic of the
  selector is modelled on the reals with the rounding \<open>fl\<close> applied after every
  operation. \<open>fl\<close> is a parameter: what is proved for every \<open>fl\<close> holds for the doubles,
  and \<open>round_double\<close> below is the rounding of IEEE binary64 itself.
\<close>

text \<open>The loop \<open>for (const errorType of errorTypes) { random -= ...; if (random <= 0) return errorType }\<close>.\<close>

fun walk :: "(real \<Rightarrow> real) \<Rightarrow> ErrorType list \<Rightarrow> real \<Rightarrow> ErrorType option" where
  "walk fl [] random = None"
| "walk fl (errorType # rest) random =
     (if fl (random - probability errorType) \<le> 0 then Some errorType
      else walk fl rest (fl (random - probability errorType)))"

text \<open>The \<open>reduce\<close> that sums the weights, left to right from 0.\<close>

definition totalProbability :: "(real \<Rightarrow> real) \<Rightarrow> ErrorInjectionConfig \<Rightarrow> real" where
  "totalProbability fl cfg =
     foldl (\<lambda>sum errorType. fl (sum + probability errorType)) 0 (errorTypes cfg)"

text \<open>\<open>selectErrorType\<close>, with the value of its \<open>Math.random()\<close> as a parameter.\<close>

definition selectErrorType ::
  "(real \<Rightarrow> real) \<Rightarrow> ErrorInjectionConfig \<Rightarrow> real \<Rightarrow> ErrorType option" where
  "selectErrorType fl cfg u =
     (if totalProbability fl cfg = 0 then None
      else (case walk fl (errorTypes cfg) (fl (u * totalProbability fl cfg)) of
              Some errorType \<Rightarrow> Some errorType
            | None \<Rightarrow> (case errorTypes cfg of [] \<Rightarrow> None | first # _ \<Rightarrow> Some first)))"

text \<open>
  \<open>injectErrors\<close>: \<open>None\<close> is \<open>next()\<close>, \<open>Some errorType\<close> is the error response built from
  the selected type (its headers, body and the timer of a timeout are not modelled).
  \<open>u\<close> is the gating draw, \<open>u'\<close> the draw of the selection.
\<close>

definition injectErrors ::
  "(real \<Rightarrow> real) \<Rightarrow> ErrorInjectionMiddleware \<Rightarrow> string \<Rightarrow> real \<Rightarrow> real
     \<Rightarrow> ErrorType option \<times> ErrorInjectionMiddleware" where
  "injectErrors fl m path u u' =
     (let m1 = m\<lparr>totalRequests := totalRequests m + 1\<rparr>
      in if \<not> e_enabled (config m1) then (None, m1)
         else if \<not> shouldApplyErrors (config m1) path then (None, m1)
         else if errorRate (config m1) < u then (None, m1)
         else (case selectErrorType fl (config m1) u' of
                 None \<Rightarrow> (None, m1)
               | Some errorType \<Rightarrow> (Some errorType, m1\<lparr>errorCount := errorCount m1 + 1\<rparr>)))"

text \<open>
  Rounding to the nearest double, ties to the even significand: the value is scaled by
  the unit in the last place of its binade, \<open>2 ^ (e - 52)\<close> for \<open>2 ^ e \<le> \<bar>x\<bar> < 2 ^ (e + 1)\<close>,
  rounded to an integer and scaled back. This is the rounding of the normal range;
  overflow and subnormal numbers are not modelled.
\<close>

definition round_half_even :: "real \<Rightarrow> int" where
  "round_half_even y =
     (if y - real_of_int \<lfloor>y\<rfloor> < 1 / 2 then \<lfloor>y\<rfloor>
      else if 1 / 2 < y - real_of_int \<lfloor>y\<rfloor> then \<lfloor>y\<rfloor> + 1
      else if even \<lfloor>y\<rfloor> then \<lfloor>y\<rfloor> else \<lfloor>y\<rfloor> + 1)"

text \<open>The binary exponent of a positive number, searched in at most \<open>n\<close> halvings or doublings.\<close>

function binary_exponent :: "nat \<Rightarrow> real \<Rightarrow> int" where
  "binary_exponent n x =
     (if n = 0 then 0
      else if 2 \<le> x then binary_exponent (n - 1) (x / 2) + 1
      else if x < 1 then binary_exponent (n - 1) (x * 2) - 1
      else 0)"
  by pat_completeness auto
termination
  by (relation "measure fst") auto

declare binary_exponent.simps [simp del]

definition pow2 :: "int \<Rightarrow> real" where
  "pow2 k = (if 0 \<le> k then 2 ^ nat k else 1 / 2 ^ nat (- k))"

definition round_double :: "real \<Rightarrow> real" where
  "round_double x =
     (if x = 0 then 0
      else sgn x * real_of_int (round_half_even (\<bar>x\<bar> / pow2 (binary_exponent 1100 \<bar>x\<bar> - 52)))
             * pow2 (binary_exponent 1100 \<bar>x\<bar> - 52))"

text \<open>
  What the general statements ask of a rounding: it keeps 0, it is monotone and it
  keeps what it has rounded. Rounding to nearest is such a rounding.
\<close>

definition rounding :: "(real \<Rightarrow> real) \<Rightarrow> bool" where
  "rounding fl = (fl 0 = 0 \<and> (\<forall>x y. x \<le> y \<longrightarrow> fl x \<le> fl y) \<and> (\<forall>x. fl (fl x) = fl x))"

text \<open>
  The running value of the walk after the first \<open>k\<close> weights have been subtracted, each
  subtraction rounded.
\<close>

fun running :: "(real \<Rightarrow> real) \<Rightarrow> ErrorType list \<Rightarrow> real \<Rightarrow> nat \<Rightarrow> real" where
  "running fl ets random 0 = random"
| "running fl [] random (Suc k) = random"
| "running fl (errorType # rest) random (Suc k) =
     running fl rest (fl (random - probability errorType)) k"

text \<open>\<open>getDefaultErrorTypes\<close>, the default weights.\<close>

definition getDefaultErrorTypes :: "ErrorType list" where
  "getDefaultErrorTypes =
     [\<lparr>e_type = ''server_error'', statusCode = 500,
       message = ''Internal server error occurred'', probability = 0.4\<rparr>,
      \<lparr>e_type = ''timeout'', statusCode = 504, message = ''Request timeout'', probability = 0.2\<rparr>,
      \<lparr>e_type = ''bad_request'', statusCode = 400,
       message = ''Bad request parameters'', probability = 0.2\<rparr>,
      \<lparr>e_type = ''rate_limit'', statusCode = 429,
       message = ''Rate limit exceeded'', probability = 0.1\<rparr>,
      \<lparr>e_type = ''unauthorized'', statusCode = 401,
       message = ''Unauthorized access'', probability = 0.1\<rparr>]"

section \<open>Example configurations\<close>

definition fixed_runtime :: runtime where
  "fixed_runtime = \<lparr>now = 1700000000000, parseDate = (\<lambda>t. None), toISOString = (\<lambda>k. [])\<rparr>"

definition boolean_field :: FieldDefinition where
  "boolean_field =
     \<lparr>f_type = Some ''boolean'', f_required = None, f_default = None, f_constraints = None\<rparr>"

text \<open>An engine with the schema \<open>{flag: {type: 'boolean'}}\<close>, 1000 records and seed 42.\<close>

definition flag_engine :: DataGenerator where
  "flag_engine = new_DataGenerator fixed_runtime
     \<lparr>cfg_totalRecords = 1000, cfg_batchSize = 100,
      cfg_schema = [(''flag'', boolean_field)], cfg_seed = Some 42\<rparr>"

text \<open>The values of one field over the records of a batch.\<close>

definition field_values :: "string \<Rightarrow> error + BatchResult \<Rightarrow> jsval option list" where
  "field_values name res =
     (case res of Inl e \<Rightarrow> [] | Inr r \<Rightarrow> map (\<lambda>record. map_of record name) (records r))"

text \<open>
  The shape the specification asks of an identifier: the canonical 8-4-4-4-12 grouping,
  that is 36 characters, hyphens at positions 8, 13, 18 and 23, hexadecimal digits
  elsewhere.
\<close>

definition is_hex :: "char \<Rightarrow> bool" where
  "is_hex c = (c \<in> set ''0123456789abcdefABCDEF'')"

definition uuid_shaped :: "string \<Rightarrow> bool" where
  "uuid_shaped t =
     (length t = 36
      \<and> list_all (\<lambda>i. if i \<in> set [8, 13, 18, 23] then t ! i = CHR ''-'' else is_hex (t ! i))
           [0..<36])"

text \<open>A field that the generation path can synthesise: a known type, and values for an enum.\<close>

definition generable :: "FieldDefinition \<Rightarrow> bool" where
  "generable f = (\<exists>t. f_type f = Some t \<and> t \<in> set validTypes \<and> (t = ''enum'' \<longrightarrow> \<not> lacks_enum f))"

text \<open>Date strings are not read by these examples; no string converts to a number.\<close>

definition no_numbers :: "string \<Rightarrow> real option" where
  "no_numbers t = None"

definition no_constraints :: FieldConstraints where
  "no_constraints =
     \<lparr>c_min = None, c_max = None, c_length = None, c_pattern = None, c_enum = None,
      c_format = None\<rparr>"

definition typed_field :: "string \<Rightarrow> FieldDefinition" where
  "typed_field t = \<lparr>f_type = Some t, f_required = None, f_default = None, f_constraints = None\<rparr>"

text \<open>\<open>{x: {type: 'bogus'}}\<close> and \<open>{status: {type: 'enum'}}\<close>, five records, seed 42.\<close>

definition bogus_engine :: DataGenerator where
  "bogus_engine = new_DataGenerator fixed_runtime
     \<lparr>cfg_totalRecords = 5, cfg_batchSize = 5,
      cfg_schema = [(''x'', typed_field ''bogus'')], cfg_seed = Some 42\<rparr>"

definition status_schema :: DataSchema where
  "status_schema = [(''status'', typed_field ''enum'')]"

definition status_engine :: DataGenerator where
  "status_engine = new_DataGenerator fixed_runtime
     \<lparr>cfg_totalRecords = 5, cfg_batchSize = 5, cfg_schema = status_schema, cfg_seed = Some 42\<rparr>"

text \<open>\<open>{a: {type: 'number', constraints: {min: 5, max: 1}}}\<close>.\<close>

definition inverted_number_schema :: DataSchema where
  "inverted_number_schema =
     [(''a'', (typed_field ''number'')
               \<lparr>f_constraints := Some (no_constraints\<lparr>c_min := Some (BNum 5), c_max := Some (BNum 1)\<rparr>)\<rparr>)]"

text \<open>\<open>{d: {type: 'iso8601', constraints: {min: '2025-01-01', max: '2024-01-01'}}}\<close>.\<close>

definition date_schema :: DataSchema where
  "date_schema =
     [(''d'', (typed_field ''iso8601'')
               \<lparr>f_constraints := Some (no_constraints\<lparr>c_min := Some (BStr ''2025-01-01''),
                                                      c_max := Some (BStr ''2024-01-01'')\<rparr>)\<rparr>)]"

text \<open>What makes a field invalid for \<open>validateSchema\<close>, read off the source.\<close>

definition unknown_or_missing_type :: "FieldDefinition \<Rightarrow> bool" where
  "unknown_or_missing_type f =
     (case f_type f of None \<Rightarrow> True | Some t \<Rightarrow> t \<notin> set validTypes)"

definition invalid_field :: "(string \<Rightarrow> real option) \<Rightarrow> FieldDefinition \<Rightarrow> bool" where
  "invalid_field toNumber f =
     (unknown_or_missing_type f
      \<or> (f_type f = Some ''enum'' \<and> lacks_enum f)
      \<or> (case f_constraints f of
            None \<Rightarrow> False
          | Some c \<Rightarrow> min_exceeds_max toNumber c \<or> negative_length c))"

text \<open>
  What makes a field invalid in the words of the specification: an unknown or missing
  type, an enum field without a non-empty enum constraint, a declared numeric \<open>min\<close> above
  \<open>max\<close>, a negative declared length.
\<close>

definition numeric_min_exceeds_max :: "FieldConstraints \<Rightarrow> bool" where
  "numeric_min_exceeds_max c =
     (case (c_min c, c_max c) of
        (Some (BNum lo), Some (BNum hi)) \<Rightarrow> hi < lo
      | _ \<Rightarrow> False)"

definition spec_invalid_field :: "FieldDefinition \<Rightarrow> bool" where
  "spec_invalid_field f =
     (unknown_or_missing_type f
      \<or> (f_type f = Some ''enum'' \<and> lacks_enum f)
      \<or> (case f_constraints f of
            None \<Rightarrow> False
          | Some c \<Rightarrow> numeric_min_exceeds_max c \<or> negative_length c))"

text \<open>A latency configuration with equal bounds, and an enabled error injector at rate 0.1.\<close>

definition constant_latency :: "string \<Rightarrow> LatencyConfig" where
  "constant_latency d =
     \<lparr>l_enabled = True, minMs = 100, maxMs = 100, distribution = d,
      l_applyToRoutes = None, l_excludeRoutes = None\<rparr>"

definition example_middleware :: "ErrorType list \<Rightarrow> ErrorInjectionMiddleware" where
  "example_middleware ets =
     \<lparr>config = \<lparr>e_enabled = True, errorRate = 0.1, errorTypes = ets,
                 e_applyToRoutes = None, e_excludeRoutes = None\<rparr>,
      errorCount = 0, totalRequests = 0\<rparr>"

text \<open>Exact arithmetic, the rounding that changes nothing.\<close>

definition exact :: "real \<Rightarrow> real" where
  "exact x = x"

text \<open>Three error types with the weights 0.35, 0.2 and 0.9 as doubles.\<close>

definition drift_types :: "ErrorType list" where
  "drift_types =
     [\<lparr>e_type = ''server_error'', statusCode = 500, message = ''a'',
       probability = round_double 0.35\<rparr>,
      \<lparr>e_type = ''timeout'', statusCode = 504, message = ''b'',
       probability = round_double 0.2\<rparr>,
      \<lparr>e_type = ''bad_request'', statusCode = 400, message = ''c'',
       probability = round_double 0.9\<rparr>]"

text \<open>\<open>{emptyEnum: {type: 'enum', constraints: {enum: []}}}\<close>, five records, seed 42.\<close>

definition empty_enum_engine :: DataGenerator where
  "empty_enum_engine = new_DataGenerator fixed_runtime
     \<lparr>cfg_totalRecords = 5, cfg_batchSize = 5,
      cfg_schema = [(''emptyEnum'', (typed_field ''enum'')
                       \<lparr>f_constraints := Some (no_constraints\<lparr>c_enum := Some []\<rparr>)\<rparr>)],
      cfg_seed = Some 42\<rparr>"

section \<open>Helper lemmas\<close>

lemma replicate_numeral: "replicate (numeral k) x = x # replicate (pred_numeral k) x"
  by (simp add: numeral_eq_Suc)

lemma batch_loop_lt:
  "i < e \<Longrightarrow> batch_loop rt st i e recs s =
     (case generateRecord rt st i s of
        (Inl er, s1) \<Rightarrow> (Inl er, s1)
      | (Inr r, s1) \<Rightarrow> batch_loop rt st (i + 1) e (recs @ [r]) s1)"
  by (subst batch_loop.simps) simp

lemma batch_loop_ge: "\<not> i < e \<Longrightarrow> batch_loop rt st i e recs s = (Inr recs, s)"
  by (subst batch_loop.simps) simp

lemma generateBatch_state: "state (snd (generateBatch rt g offset limit)) = state g"
  by (simp add: generateBatch_def Let_def split: prod.splits sum.splits)

lemma reset_counters:
  "currentOffset (state (reset g c)) = 0 \<and> generatedCount (state (reset g c)) = 0"
  by (simp add: reset_def Let_def split: option.splits)

lemma flag_engine_fields:
  "currentSeed flag_engine = 42" "totalRecords (state flag_engine) = 1000"
  by (simp_all add: flag_engine_def new_DataGenerator_def createSeededRandom_def)

lemma flag_record:
  "generateRecord fixed_runtime (state flag_engine) i s =
     (Inr [(''id'', VStr (generateDeterministicUuid (42 + i))),
           (''flag'', VBool (fst (seededRandom s) < 1 / 2))], snd (seededRandom s))"
  by (simp add: generateRecord_def generateFieldValue_def dispatch_type_def generateId_def
        flag_engine_def new_DataGenerator_def boolean_field_def split: prod.splits)

text \<open>One turn of the batch loop on the example engine, as a rewrite step.\<close>

lemma flag_step:
  "i < e \<Longrightarrow> batch_loop fixed_runtime (state flag_engine) i e recs s =
     batch_loop fixed_runtime (state flag_engine) (i + 1) e
       (recs @ [[(''id'', VStr (generateDeterministicUuid (42 + i))),
                 (''flag'', VBool (real_of_int (js_rem (s * 9301 + 49297) 233280) / 233280 < 1 / 2))]])
       (js_rem (s * 9301 + 49297) 233280)"
  by (simp add: batch_loop_lt flag_record seededRandom_def Let_def)

lemma flag_batch_fresh:
  "field_values ''flag'' (fst (generateBatch fixed_runtime flag_engine 0 10)) =
     map (Some \<circ> VBool) [False, False, False, False, False, False, False, True, False, False]"
  by (simp add: generateBatch_def flag_engine_fields flag_step batch_loop_ge js_rem_def
        field_values_def)

lemma flag_batch_50:
  "snd (generateBatch fixed_runtime flag_engine 50 10) = flag_engine\<lparr>currentSeed := 182152\<rparr>"
  by (simp add: generateBatch_def flag_engine_fields flag_step batch_loop_ge js_rem_def)

lemma flag_batch_after:
  "field_values ''flag''
     (fst (generateBatch fixed_runtime (flag_engine\<lparr>currentSeed := 182152\<rparr>) 0 10)) =
     map (Some \<circ> VBool) [False, True, False, False, False, False, True, True, False, False]"
  by (simp add: generateBatch_def flag_engine_fields flag_step batch_loop_ge js_rem_def
        field_values_def)

lemma digits_nonempty: "digits b n \<noteq> []"
  by (induction b n rule: digits.induct) (subst digits.simps, simp)

lemma toString_radix_nonempty: "toString_radix b n \<noteq> []"
  by (simp add: toString_radix_def digits_nonempty)

lemma digits_length:
  "2 \<le> b \<Longrightarrow> n < b ^ k \<Longrightarrow> 0 < k \<Longrightarrow> length (digits b n) \<le> k"
proof (induction b n arbitrary: k rule: digits.induct)
  case (1 b n)
  show ?case
  proof (cases "n < b")
    case True
    then show ?thesis using "1.prems" by (subst digits.simps) simp
  next
    case False
    with "1.prems" have k2: "1 < k"
      by (cases "k = 1") auto
    then obtain j where j: "k = Suc j" "0 < j" by (cases k) auto
    have "n div b < b ^ j"
      using "1.prems" j by (simp add: less_mult_imp_div_less mult.commute)
    with "1.IH" [of j] False "1.prems" j have "length (digits b (n div b)) \<le> j" by simp
    then show ?thesis using False "1.prems" j by (subst digits.simps) simp
  qed
qed

lemma uuid_length_small:
  assumes "0 \<le> sd" "sd < 4294967296"
  shows "length (generateDeterministicUuid sd) = 32"
proof -
  have "nat sd < 16 ^ 8" using assms by simp
  then have "length (digits 16 (nat sd)) \<le> 8" by (intro digits_length) simp_all
  then have "length (padStart 8 CHR ''0'' (toString_radix 16 sd)) = 8"
    using assms by (simp add: padStart_def toString_radix_def)
  then show ?thesis
    by (simp add: generateDeterministicUuid_def Let_def slice_def)
qed

lemma uuid_42: "generateDeterministicUuid 42 = ''0000002a-0000-4000-8000-0000002a''"
  by (simp add: generateDeterministicUuid_def padStart_def toString_radix_def digits.simps
        digit_char_def slice_def replicate_numeral)

lemma batch_loop_records:
  "batch_loop rt st i e recs s = (Inr out, s') \<Longrightarrow>
     \<exists>new. out = recs @ new \<and> length new = nat (e - i)
       \<and> (\<forall>k<length new. \<exists>s0. fst (generateRecord rt st (i + int k) s0) = Inr (new ! k))"
proof (induction rt st i e recs s rule: batch_loop.induct)
  case (1 rt st i e recs s)
  show ?case
  proof (cases "i < e")
    case False
    with "1.prems" show ?thesis by (simp add: batch_loop_ge)
  next
    case True
    with "1.prems" obtain r s1 where g: "generateRecord rt st i s = (Inr r, s1)"
      and rest: "batch_loop rt st (i + 1) e (recs @ [r]) s1 = (Inr out, s')"
      by (auto simp: batch_loop_lt split: prod.splits sum.splits)
    from "1.IH" [OF True g [symmetric] refl rest]
    obtain new where n: "out = (recs @ [r]) @ new" "length new = nat (e - (i + 1))"
      "\<forall>k<length new. \<exists>s0. fst (generateRecord rt st (i + 1 + int k) s0) = Inr (new ! k)"
      by auto
    have "\<forall>k<length (r # new). \<exists>s0. fst (generateRecord rt st (i + int k) s0) = Inr ((r # new) ! k)"
    proof (intro allI impI)
      fix k assume k: "k < length (r # new)"
      show "\<exists>s0. fst (generateRecord rt st (i + int k) s0) = Inr ((r # new) ! k)"
      proof (cases k)
        case 0
        with g show ?thesis by (auto intro: exI [of _ s])
      next
        case (Suc j)
        with k n(3) have "\<exists>s0. fst (generateRecord rt st (i + 1 + int j) s0) = Inr (new ! j)" by simp
        with Suc show ?thesis by (simp add: add.assoc)
      qed
    qed
    moreover have "length (r # new) = nat (e - i)" using n(2) True by simp
    moreover have "out = recs @ (r # new)" using n(1) by simp
    ultimately show ?thesis by blast
  qed
qed

lemma uuid_field_no_draw:
  "snd (dispatch_type rt st (f\<lparr>f_type := Some ''uuid''\<rparr>) i s) = s"
  by (simp add: dispatch_type_def)

lemma generateBatch_Inr:
  assumes "fst (generateBatch rt g offset limit) = Inr r"
  shows "\<exists>recs s1. batch_loop rt (state g) offset (min (offset + limit) (totalRecords (state g))) []
                     (currentSeed g) = (Inr recs, s1)
           \<and> r = \<lparr>records = recs,
                   hasMore = (min (offset + limit) (totalRecords (state g)) < totalRecords (state g)),
                   nextOffset =
                     (if min (offset + limit) (totalRecords (state g)) < totalRecords (state g)
                      then Some (toString_radix 10 (min (offset + limit) (totalRecords (state g))))
                      else None),
                   totalCount = totalRecords (state g)\<rparr>"
  using assms
  by (auto simp: generateBatch_def Let_def or_undefined_def toString_radix_nonempty
           split: prod.splits sum.splits)

lemma digits_10_999: "toString_radix 10 999 = ''999''"
  by (simp add: toString_radix_def digits.simps digit_char_def)

lemma validate_loop_object:
  "validate_loop tn (map (\<lambda>(n, f). (n, FieldObject f)) sc) errs =
     Inr (errs @ concat (map (\<lambda>(n, f). field_errors tn n f) sc))"
  by (induction sc arbitrary: errs) auto

lemma validateSchema_object:
  "validateSchema tn (as_object sc) =
     Inr \<lparr>valid = (\<forall>(n, f)\<in>set sc. field_errors tn n f = []),
          errors = concat (map (\<lambda>(n, f). field_errors tn n f) sc)\<rparr>"
  by (auto simp: as_object_def validate_loop_object)

lemma field_errors_generable: "field_errors tn n f = [] \<Longrightarrow> generable f"
  by (cases "f_type f")
     (auto simp: field_errors_def generable_def missing_type_def split: if_splits)

lemma generateEnum_ok:
  "\<not> lacks_enum f \<Longrightarrow> \<exists>v. fst (generateEnum (f_constraints f) s) = Inr v"
  by (auto simp: lacks_enum_def generateEnum_def Let_def split: option.splits prod.splits)

lemma generateIso8601Date_error:
  assumes "fst (generateIso8601Date rt c s) = Inl e"
  shows "e = RangeError ''Invalid time value''"
proof -
  obtain r s1 where d: "seededRandom s = (r, s1)" by (cases "seededRandom s")
  show ?thesis
  proof (cases "date_bound rt (case c of None \<Rightarrow> None | Some k \<Rightarrow> c_min k)
                  (real_of_int (now rt) - 365 * 24 * 60 * 60 * 1000)")
    case None
    with assms d show ?thesis by (simp add: generateIso8601Date_def)
  next
    case lo: (Some lo)
    show ?thesis
    proof (cases "date_bound rt (case c of None \<Rightarrow> None | Some k \<Rightarrow> c_max k) (real_of_int (now rt))")
      case None
      with assms d lo show ?thesis by (simp add: generateIso8601Date_def)
    next
      case (Some hi)
      with assms d lo show ?thesis
        by (simp add: generateIso8601Date_def Let_def split: if_splits)
    qed
  qed
qed

lemma dispatch_uuid_no_error:
  "f_type f = Some ''uuid'' \<Longrightarrow> fst (dispatch_type rt st f i s) \<noteq> Inl e"
  by (simp add: dispatch_type_def)

lemma dispatch_string_no_error:
  "f_type f = Some ''string'' \<Longrightarrow> fst (dispatch_type rt st f i s) \<noteq> Inl e"
  by (simp add: dispatch_type_def split: prod.splits)

lemma dispatch_number_no_error:
  "f_type f = Some ''number'' \<Longrightarrow> fst (dispatch_type rt st f i s) \<noteq> Inl e"
  by (simp add: dispatch_type_def split: prod.splits)

lemma dispatch_boolean_no_error:
  "f_type f = Some ''boolean'' \<Longrightarrow> fst (dispatch_type rt st f i s) \<noteq> Inl e"
  by (simp add: dispatch_type_def split: prod.splits)

lemma dispatch_enum_no_error:
  "f_type f = Some ''enum'' \<Longrightarrow> \<not> lacks_enum f \<Longrightarrow> fst (dispatch_type rt st f i s) \<noteq> Inl e"
  using generateEnum_ok [of f s] by (auto simp add: dispatch_type_def)

lemma dispatch_iso8601_error:
  assumes "f_type f = Some ''iso8601''" "fst (dispatch_type rt st f i s) = Inl e"
  shows "e = RangeError ''Invalid time value''"
proof -
  obtain x s1 where g: "generateIso8601Date rt (f_constraints f) s = (x, s1)"
    by (cases "generateIso8601Date rt (f_constraints f) s")
  with assms have "x = Inl e"
    by (cases x) (simp_all add: dispatch_type_def)
  with g have "fst (generateIso8601Date rt (f_constraints f) s) = Inl e" by simp
  then show ?thesis by (rule generateIso8601Date_error)
qed

lemma validTypes_cases:
  "t \<in> set validTypes \<Longrightarrow> t = ''uuid'' \<or> t = ''string'' \<or> t = ''number'' \<or> t = ''boolean''
     \<or> t = ''iso8601'' \<or> t = ''enum''"
  by (auto simp: validTypes_def)

lemma dispatch_type_error:
  assumes "generable f" "fst (dispatch_type rt st f i s) = Inl e"
  shows "e = RangeError ''Invalid time value'' \<and> f_type f = Some ''iso8601''"
proof -
  from assms(1) obtain t where t: "f_type f = Some t" "t \<in> set validTypes"
    "t = ''enum'' \<longrightarrow> \<not> lacks_enum f" unfolding generable_def by blast
  from validTypes_cases [OF t(2)] t(1) t(3)
  consider "f_type f = Some ''uuid''" | "f_type f = Some ''string''"
    | "f_type f = Some ''number''" | "f_type f = Some ''boolean''"
    | "f_type f = Some ''iso8601''" | "f_type f = Some ''enum''" "\<not> lacks_enum f"
    by blast
  then show ?thesis
  proof cases
    case 1
    from dispatch_uuid_no_error [OF 1] assms(2) show ?thesis by blast
  next
    case 2
    from dispatch_string_no_error [OF 2] assms(2) show ?thesis by blast
  next
    case 3
    from dispatch_number_no_error [OF 3] assms(2) show ?thesis by blast
  next
    case 4
    from dispatch_boolean_no_error [OF 4] assms(2) show ?thesis by blast
  next
    case 5
    from dispatch_iso8601_error [OF 5 assms(2)] 5 show ?thesis by blast
  next
    case 6
    from dispatch_enum_no_error [OF 6] assms(2) show ?thesis by blast
  qed
qed

lemma generateFieldValue_error:
  assumes "generable f" "fst (generateFieldValue rt st f i s) = Inl e"
  shows "e = RangeError ''Invalid time value'' \<and> f_type f = Some ''iso8601''"
  using assms
  by (auto simp: generateFieldValue_def split: option.splits if_splits prod.splits
           dest: dispatch_type_error)

lemma generateFields_error:
  assumes "\<forall>(n, f)\<in>set sc. generable f" "fst (generateFields rt st sc i rcd s) = Inl e"
  shows "e = RangeError ''Invalid time value'' \<and> (\<exists>(n, f)\<in>set sc. f_type f = Some ''iso8601'')"
  using assms
proof (induction sc arbitrary: rcd s)
  case Nil
  then show ?case by simp
next
  case (Cons a sc)
  obtain n f where a: "a = (n, f)" by (cases a)
  show ?case
  proof (cases "generateFieldValue rt st f i s")
    case (Pair x s1)
    show ?thesis
    proof (cases x)
      case (Inl e')
      with Pair Cons.prems a have "e' = e" by simp
      with Inl Pair generateFieldValue_error [of f rt st i s e] Cons.prems(1) a
      show ?thesis by auto
    next
      case (Inr v)
      with Pair Cons.prems a
      have "fst (generateFields rt st sc i (set_field n v rcd) s1) = Inl e" by simp
      with Cons.IH [of "set_field n v rcd" s1] Cons.prems(1) show ?thesis by auto
    qed
  qed
qed

lemma batch_loop_error:
  assumes "\<forall>(n, f)\<in>set (schema st). generable f" "fst (batch_loop rt st i e recs s) = Inl er"
  shows "er = RangeError ''Invalid time value''
         \<and> (\<exists>(n, f)\<in>set (schema st). f_type f = Some ''iso8601'')"
  using assms
proof (induction rt st i e recs s rule: batch_loop.induct)
  case (1 rt st i e recs s)
  show ?case
  proof (cases "i < e")
    case False
    with "1.prems" show ?thesis by (simp add: batch_loop_ge)
  next
    case True
    show ?thesis
    proof (cases "generateRecord rt st i s")
      case (Pair x s1)
      show ?thesis
      proof (cases x)
        case (Inl e')
        with Pair True "1.prems"(2) have "fst (generateRecord rt st i s) = Inl er"
          by (simp add: batch_loop_lt)
        with generateFields_error [OF "1.prems"(1)] show ?thesis
          by (simp add: generateRecord_def)
      next
        case (Inr r)
        with Pair True "1.prems"(2)
        have "fst (batch_loop rt st (i + 1) e (recs @ [r]) s1) = Inl er"
          by (simp add: batch_loop_lt)
        with "1.IH" [OF True Pair [symmetric] Inr "1.prems"(1)] show ?thesis by simp
      qed
    qed
  qed
qed

lemma generateBatch_error:
  assumes "\<forall>(n, f)\<in>set (schema (state g)). generable f"
    "fst (generateBatch rt g offset limit) = Inl e"
  shows "e = RangeError ''Invalid time value''
         \<and> (\<exists>(n, f)\<in>set (schema (state g)). f_type f = Some ''iso8601'')"
proof -
  obtain x s1 where b: "batch_loop rt (state g) offset
      (min (offset + limit) (totalRecords (state g))) [] (currentSeed g) = (x, s1)"
    by (cases "batch_loop rt (state g) offset
      (min (offset + limit) (totalRecords (state g))) [] (currentSeed g)")
  with assms(2) have "x = Inl e"
    by (cases x) (simp_all add: generateBatch_def Let_def)
  with b have "fst (batch_loop rt (state g) offset
      (min (offset + limit) (totalRecords (state g))) [] (currentSeed g)) = Inl e" by simp
  from batch_loop_error [OF assms(1) this] show ?thesis .
qed

lemma valid_generable:
  assumes "validateSchema tn (as_object sc) = Inr r" "valid r"
  shows "\<forall>(n, f)\<in>set sc. generable f"
proof -
  from assms have "\<forall>(n, f)\<in>set sc. field_errors tn n f = []"
    by (auto simp: validateSchema_object)
  then show ?thesis using field_errors_generable by fast
qed

lemma unknown_type_throws:
  assumes "f_default f = None" "unknown_or_missing_type f"
  shows "fst (generateFieldValue rt st f i s) =
           Inl (Error (''Unsupported field type: ''
                  @ (case f_type f of None \<Rightarrow> ''undefined'' | Some t \<Rightarrow> t)))"
proof (cases "f_type f")
  case None
  with assms show ?thesis by (simp add: generateFieldValue_def dispatch_type_def)
next
  case (Some t)
  with assms(2) have "t \<notin> set validTypes" by (simp add: unknown_or_missing_type_def)
  then have "t \<noteq> ''uuid''" "t \<noteq> ''string''" "t \<noteq> ''number''" "t \<noteq> ''boolean''"
    "t \<noteq> ''iso8601''" "t \<noteq> ''enum''" by (auto simp: validTypes_def)
  with Some assms(1) show ?thesis by (simp add: generateFieldValue_def dispatch_type_def)
qed

lemma bare_enum_throws:
  assumes "f_default f = None" "f_type f = Some ''enum''" "lacks_enum f"
  shows "fst (generateFieldValue rt st f i s) =
           Inl (Error ''Enum field must have enum constraint with values'')"
proof -
  have "fst (generateEnum (f_constraints f) s) =
          Inl (Error ''Enum field must have enum constraint with values'')"
    using assms(3) by (auto simp: lacks_enum_def generateEnum_def split: option.splits)
  with assms(1,2) show ?thesis by (simp add: generateFieldValue_def dispatch_type_def)
qed

lemma bogus_engine_fields:
  "currentSeed bogus_engine = 42" "totalRecords (state bogus_engine) = 5"
  "schema (state bogus_engine) = [(''x'', typed_field ''bogus'')]"
  by (simp_all add: bogus_engine_def new_DataGenerator_def createSeededRandom_def)

lemma status_engine_fields:
  "currentSeed status_engine = 42" "totalRecords (state status_engine) = 5"
  "schema (state status_engine) = status_schema"
  by (simp_all add: status_engine_def new_DataGenerator_def createSeededRandom_def)

lemma field_errors_empty_iff:
  "field_errors tn n f = [] \<longleftrightarrow> \<not> invalid_field tn f"
proof (cases "f_type f")
  case None
  then show ?thesis
    by (simp add: field_errors_def invalid_field_def missing_type_def unknown_or_missing_type_def)
next
  case (Some t)
  show ?thesis
  proof (cases "t = []")
    case True
    with Some show ?thesis
      by (simp add: field_errors_def invalid_field_def missing_type_def
            unknown_or_missing_type_def validTypes_def)
  next
    case False
    with Some show ?thesis
      by (cases "f_constraints f")
         (auto simp: field_errors_def invalid_field_def missing_type_def unknown_or_missing_type_def)
  qed
qed

lemma no_field_errors_iff:
  "(\<forall>(n, f)\<in>set sc. field_errors tn n f = []) \<longleftrightarrow> \<not> list_ex (invalid_field tn \<circ> snd) sc"
  by (auto simp: field_errors_empty_iff list_ex_iff)

lemma status_schema_result:
  "validateSchema tn (as_object status_schema) =
     Inr \<lparr>valid = False,
          errors = [''Field 'status' of type 'enum' must have enum constraint with values'']\<rparr>"
  by (simp add: validateSchema_object status_schema_def field_errors_def typed_field_def
        missing_type_def validTypes_def lacks_enum_def)

lemma inverted_number_schema_result:
  "validateSchema tn (as_object inverted_number_schema) =
     Inr \<lparr>valid = False, errors = [''Field 'a' min constraint cannot be greater than max'']\<rparr>"
  by (simp add: validateSchema_object inverted_number_schema_def field_errors_def typed_field_def
        missing_type_def validTypes_def min_exceeds_max_def negative_length_def no_constraints_def)

text \<open>When the date generator throws: an invalid bound, or a time value out of range.\<close>

lemma generateIso8601Date_throws_iff:
  "(\<exists>e. fst (generateIso8601Date rt c s) = Inl e) \<longleftrightarrow>
     (case (date_bound rt (case c of None \<Rightarrow> None | Some k \<Rightarrow> c_min k)
              (real_of_int (now rt) - 365 * 24 * 60 * 60 * 1000),
            date_bound rt (case c of None \<Rightarrow> None | Some k \<Rightarrow> c_max k) (real_of_int (now rt))) of
        (Some lo, Some hi) \<Rightarrow> 8640000000000000 < \<bar>lo + fst (seededRandom s) * (hi - lo)\<bar>
      | _ \<Rightarrow> True)"
  by (cases "seededRandom s")
     (simp add: generateIso8601Date_def Let_def split: option.splits)

text \<open>
  For a schema that \<open>validateSchema\<close> accepts, the only exception of a batch is the
  \<open>RangeError\<close> of an \<open>iso8601\<close> field.
\<close>

lemma generateBatch_accepted_schema_errors:
  assumes "validateSchema toNumber (as_object (schema (state g))) = Inr r" "valid r"
    "fst (generateBatch rt g offset limit) = Inl e"
  shows "e = RangeError ''Invalid time value''
         \<and> (\<exists>(n, f)\<in>set (schema (state g)). f_type f = Some ''iso8601'')"
  using generateBatch_error [OF valid_generable [OF assms(1,2)] assms(3)] .

lemma empty_enum_engine_fields:
  "currentSeed empty_enum_engine = 42" "totalRecords (state empty_enum_engine) = 5"
  "schema (state empty_enum_engine) =
     [(''emptyEnum'', (typed_field ''enum'')
         \<lparr>f_constraints := Some (no_constraints\<lparr>c_enum := Some []\<rparr>)\<rparr>)]"
  by (simp_all add: empty_enum_engine_def new_DataGenerator_def createSeededRandom_def)

lemma clamp_Fin:
  "lo \<le> hi \<Longrightarrow> \<exists>w. js_max (Fin lo) (js_min (Fin hi) (Fin v)) = Fin w \<and> lo \<le> w \<and> w \<le> hi"
  by simp

lemma uniform_in_range:
  fixes lo hi u :: real
  assumes "lo \<le> hi" "0 \<le> u" "u < 1"
  shows "lo \<le> u * (hi - lo) + lo \<and> u * (hi - lo) + lo \<le> hi"
proof -
  have "0 \<le> u * (hi - lo)"
    by (intro mult_nonneg_nonneg) (use assms in simp_all)
  moreover have "u * (hi - lo) \<le> 1 * (hi - lo)"
    by (intro mult_right_mono) (use assms in simp_all)
  ultimately show ?thesis by simp
qed

lemma normal_in_range:
  assumes "lo \<le> hi" "0 < u1" "u1 < 1"
  shows "\<exists>w. generateNormalDistribution lo hi u1 u2 = Fin w \<and> lo \<le> w \<and> w \<le> hi"
proof -
  have "ln u1 < 0" using assms by simp
  then have nn: "\<not> - 2 * ln u1 < 0" by simp
  have l: "js_log (Fin u1) = Fin (ln u1)" using assms by simp
  have m: "js_mul (Fin (- 2)) (Fin (ln u1)) = Fin (- 2 * ln u1)" by simp
  have q: "js_sqrt (Fin (- 2 * ln u1)) = Fin (sqrt (- 2 * ln u1))" using nn by simp
  have "generateNormalDistribution lo hi u1 u2 =
          js_max (Fin lo) (js_min (Fin hi)
            (Fin ((lo + hi) / 2 + sqrt (- 2 * ln u1) * cos (2 * pi * u2) * ((hi - lo) / 6))))"
    by (simp only: generateNormalDistribution_def Let_def l m q js_cos.simps js_mul.simps
          js_add.simps)
  with clamp_Fin [OF assms(1)] show ?thesis by (simp only:)
qed

lemma exponential_in_range:
  assumes "lo \<le> hi" "0 < u" "u < 1"
  shows "\<exists>w. generateExponentialDistribution lo hi u = Fin w \<and> lo \<le> w \<and> w \<le> hi"
proof -
  have l: "js_log (Fin u) = Fin (ln u)" using assms by simp
  have "\<exists>v. js_add (js_div (js_neg (js_log (Fin u)))
                 (js_div (Fin 1) (js_div (Fin (hi - lo)) (Fin 3)))) (Fin lo) = Fin v"
    by (cases "hi = lo") (simp_all only: l, simp_all add: signed_inf_def)
  then obtain v where "generateExponentialDistribution lo hi u =
      js_max (Fin lo) (js_min (Fin hi) (Fin v))"
    by (auto simp only: generateExponentialDistribution_def Let_def)
  with clamp_Fin [OF assms(1)] show ?thesis by (simp only:)
qed

lemma latency_in_range:
  assumes "0 \<le> minMs c" "minMs c \<le> maxMs c" "0 < u1" "u1 < 1"
  shows "\<exists>w. generateLatency c u1 u2 = Fin w \<and> minMs c \<le> w \<and> w \<le> maxMs c"
  using uniform_in_range [of "minMs c" "maxMs c" u1]
    normal_in_range [of "minMs c" "maxMs c" u1 u2]
    exponential_in_range [of "minMs c" "maxMs c" u1] assms
  by (simp add: generateLatency_def)

text \<open>The walk of the selector, whatever the rounding.\<close>

lemma walk_Some:
  "walk fl ets random = Some e \<Longrightarrow>
     \<exists>k<length ets. e = ets ! k \<and> running fl ets random (Suc k) \<le> 0
       \<and> (\<forall>j<k. 0 < running fl ets random (Suc j))"
proof (induction ets arbitrary: random)
  case Nil
  then show ?case by simp
next
  case (Cons a es)
  show ?case
  proof (cases "fl (random - probability a) \<le> 0")
    case True
    with Cons.prems have "e = (a # es) ! 0 \<and> running fl (a # es) random (Suc 0) \<le> 0" by simp
    then show ?thesis by auto
  next
    case False
    with Cons.prems have "walk fl es (fl (random - probability a)) = Some e" by simp
    from Cons.IH [OF this] obtain k where k: "k < length es" "e = es ! k"
      "running fl es (fl (random - probability a)) (Suc k) \<le> 0"
      "\<forall>j<k. 0 < running fl es (fl (random - probability a)) (Suc j)" by blast
    have "\<forall>j<Suc k. 0 < running fl (a # es) random (Suc j)"
    proof (intro allI impI)
      fix j assume j: "j < Suc k"
      show "0 < running fl (a # es) random (Suc j)"
      proof (cases j)
        case 0
        with False show ?thesis by simp
      next
        case (Suc i)
        with j k(4) show ?thesis by simp
      qed
    qed
    moreover have "e = (a # es) ! Suc k" using k(2) by simp
    moreover have "running fl (a # es) random (Suc (Suc k)) \<le> 0" using k(3) by simp
    moreover have "Suc k < length (a # es)" using k(1) by simp
    ultimately show ?thesis by blast
  qed
qed

lemma walk_None:
  "walk fl ets random = None \<Longrightarrow> \<forall>j<length ets. 0 < running fl ets random (Suc j)"
proof (induction ets arbitrary: random)
  case Nil
  then show ?case by simp
next
  case (Cons a es)
  from Cons.prems have pos: "\<not> fl (random - probability a) \<le> 0"
    and rest: "walk fl es (fl (random - probability a)) = None"
    by (auto split: if_splits)
  show ?case
  proof (intro allI impI)
    fix j assume j: "j < length (a # es)"
    show "0 < running fl (a # es) random (Suc j)"
    proof (cases j)
      case 0
      with pos show ?thesis by simp
    next
      case (Suc i)
      with j Cons.IH [OF rest] show ?thesis by simp
    qed
  qed
qed

lemma selectErrorType_zero:
  "totalProbability fl cfg = 0 \<Longrightarrow> selectErrorType fl cfg u = None"
  by (simp add: selectErrorType_def)

lemma selectErrorType_nonzero:
  assumes "totalProbability fl cfg \<noteq> 0"
  shows "\<exists>k<length (errorTypes cfg).
           selectErrorType fl cfg u = Some (errorTypes cfg ! k)
           \<and> ((running fl (errorTypes cfg) (fl (u * totalProbability fl cfg)) (Suc k) \<le> 0
                \<and> (\<forall>j<k. 0 < running fl (errorTypes cfg) (fl (u * totalProbability fl cfg)) (Suc j)))
              \<or> (k = 0
                  \<and> (\<forall>j<length (errorTypes cfg).
                        0 < running fl (errorTypes cfg) (fl (u * totalProbability fl cfg)) (Suc j))))"
proof -
  let ?ets = "errorTypes cfg"
  let ?r = "fl (u * totalProbability fl cfg)"
  from assms have ne: "?ets \<noteq> []" by (auto simp: totalProbability_def)
  show ?thesis
  proof (cases "walk fl ?ets ?r")
    case None
    from ne obtain a es where c: "?ets = a # es" by (cases ?ets) auto
    with None assms have "selectErrorType fl cfg u = Some (?ets ! 0)"
      by (simp add: selectErrorType_def)
    with walk_None [OF None] ne show ?thesis by auto
  next
    case (Some e)
    with assms have "selectErrorType fl cfg u = Some e" by (simp add: selectErrorType_def)
    with walk_Some [OF Some] show ?thesis by blast
  qed
qed

text \<open>The rounded sum of non-negative doubles dominates its start and each of its terms.\<close>

lemma rounded_sum_bounds:
  assumes "rounding fl" "\<forall>e\<in>set ets. 0 \<le> probability e \<and> fl (probability e) = probability e"
    "fl a = a" "0 \<le> a"
  shows "a \<le> foldl (\<lambda>sum e. fl (sum + probability e)) a ets
         \<and> fl (foldl (\<lambda>sum e. fl (sum + probability e)) a ets)
             = foldl (\<lambda>sum e. fl (sum + probability e)) a ets
         \<and> (\<forall>e\<in>set ets. probability e \<le> foldl (\<lambda>sum e. fl (sum + probability e)) a ets)"
  using assms(2-)
proof (induction ets arbitrary: a)
  case Nil
  then show ?case by simp
next
  case (Cons x xs)
  from assms(1) have mono: "\<And>u v. u \<le> v \<Longrightarrow> fl u \<le> fl v" and idem: "\<And>u. fl (fl u) = fl u"
    by (auto simp: rounding_def)
  let ?a = "fl (a + probability x)"
  from Cons.prems have px: "0 \<le> probability x" "fl (probability x) = probability x" by auto
  have a1: "a \<le> ?a" using mono [of a "a + probability x"] px(1) Cons.prems(2) by simp
  have a2: "probability x \<le> ?a"
    using mono [of "probability x" "a + probability x"] px(2) Cons.prems(3) by simp
  have "fl ?a = ?a" by (rule idem)
  moreover have "0 \<le> ?a" using a1 Cons.prems(3) by simp
  moreover have "\<forall>e\<in>set xs. 0 \<le> probability e \<and> fl (probability e) = probability e"
    using Cons.prems(1) by simp
  ultimately have ih: "?a \<le> foldl (\<lambda>sum e. fl (sum + probability e)) ?a xs
         \<and> fl (foldl (\<lambda>sum e. fl (sum + probability e)) ?a xs)
             = foldl (\<lambda>sum e. fl (sum + probability e)) ?a xs
         \<and> (\<forall>e\<in>set xs. probability e \<le> foldl (\<lambda>sum e. fl (sum + probability e)) ?a xs)"
    using Cons.IH [of ?a] by blast
  with a1 a2 show ?case by auto
qed

lemma rounded_sum_zero:
  assumes "fl 0 = 0" "\<forall>e\<in>set ets. probability e = 0"
  shows "foldl (\<lambda>sum e. fl (sum + probability e)) 0 ets = 0"
  using assms(2) by (induction ets) (simp_all add: assms(1))

lemma sum_list_all_zero:
  fixes f :: "'a \<Rightarrow> real"
  shows "\<forall>e\<in>set xs. f e = 0 \<Longrightarrow> sum_list (map f xs) = 0"
  by (induction xs) auto

lemma sum_list_zero_all:
  fixes f :: "'a \<Rightarrow> real"
  assumes "\<forall>e\<in>set xs. 0 \<le> f e" "sum_list (map f xs) = 0"
  shows "\<forall>e\<in>set xs. f e = 0"
  using assms
proof (induction xs)
  case Nil
  then show ?case by simp
next
  case (Cons x xs)
  have "0 \<le> sum_list (map f xs)" using Cons.prems(1) by (intro sum_list_nonneg) auto
  moreover have "0 \<le> f x" using Cons.prems(1) by simp
  moreover have "f x + sum_list (map f xs) = 0" using Cons.prems(2) by simp
  ultimately have "f x = 0" "sum_list (map f xs) = 0" by linarith+
  with Cons.IH Cons.prems(1) show ?case by simp
qed

lemma total_links:
  assumes "rounding fl"
    "\<forall>e\<in>set (errorTypes cfg). 0 \<le> probability e \<and> fl (probability e) = probability e"
    "0 \<le> u" "u < 1"
  shows "(totalProbability fl cfg = 0 \<longleftrightarrow> sum_list (map probability (errorTypes cfg)) = 0)
         \<and> 0 \<le> fl (u * totalProbability fl cfg)
         \<and> fl (u * totalProbability fl cfg) \<le> totalProbability fl cfg"
proof -
  let ?ets = "errorTypes cfg"
  let ?t = "totalProbability fl cfg"
  from assms(1) have z: "fl 0 = 0" and mono: "\<And>a b. a \<le> b \<Longrightarrow> fl a \<le> fl b"
    by (auto simp: rounding_def)
  from rounded_sum_bounds [OF assms(1,2), of 0] z
  have b: "0 \<le> ?t" "fl ?t = ?t" "\<forall>e\<in>set ?ets. probability e \<le> ?t"
    by (simp_all add: totalProbability_def)
  have nn: "\<forall>e\<in>set ?ets. 0 \<le> probability e" using assms(2) by auto
  have "?t = 0 \<longleftrightarrow> sum_list (map probability ?ets) = 0"
  proof
    assume "?t = 0"
    with b(3) nn have "\<forall>e\<in>set ?ets. probability e = 0" by fastforce
    then show "sum_list (map probability ?ets) = 0" by (rule sum_list_all_zero)
  next
    assume "sum_list (map probability ?ets) = 0"
    with nn have "\<forall>e\<in>set ?ets. probability e = 0" by (rule sum_list_zero_all)
    from rounded_sum_zero [where fl = fl and ets = ?ets] z this show "?t = 0"
      by (simp add: totalProbability_def)
  qed
  moreover have "0 \<le> u * ?t" using assms(3) b(1) by simp
  then have "0 \<le> fl (u * ?t)" using mono [of 0 "u * ?t"] z by simp
  moreover have "u * ?t \<le> 1 * ?t" using assms(4) b(1) by (intro mult_right_mono) simp_all
  then have "fl (u * ?t) \<le> ?t" using mono [of "u * ?t" ?t] b(2) by simp
  ultimately show ?thesis by blast
qed

lemma injectErrors_gate:
  "errorRate (config m) < u \<Longrightarrow> fst (injectErrors fl m path u u') = None"
  by (simp add: injectErrors_def Let_def)

lemma injectErrors_select:
  "fst (injectErrors fl m path u u') = None
   \<or> fst (injectErrors fl m path u u') = selectErrorType fl (config m) u'"
  by (simp add: injectErrors_def Let_def split: option.splits)

lemma injectErrors_passes:
  "e_enabled (config m) \<Longrightarrow> shouldApplyErrors (config m) path \<Longrightarrow> u \<le> errorRate (config m)
     \<Longrightarrow> fst (injectErrors fl m path u u') = selectErrorType fl (config m) u'"
  by (simp add: injectErrors_def Let_def split: option.splits)

lemma rounding_exact: "rounding exact"
  by (simp add: rounding_def exact_def)

text \<open>The roundings of the example with the weights 0.35, 0.2 and 0.9.\<close>

lemmas round_double_eval =
  round_double_def binary_exponent.simps pow2_def round_half_even_def

lemma drift_weights:
  "round_double 0.35 = 3152519739159347 / 9007199254740992"
  "round_double 0.2 = 3602879701896397 / 18014398509481984"
  "round_double 0.9 = 8106479329266893 / 9007199254740992"
  by (simp_all add: round_double_eval)

lemma drift_types_weights:
  "drift_types =
     [\<lparr>e_type = ''server_error'', statusCode = 500, message = ''a'',
       probability = 3152519739159347 / 9007199254740992\<rparr>,
      \<lparr>e_type = ''timeout'', statusCode = 504, message = ''b'',
       probability = 3602879701896397 / 18014398509481984\<rparr>,
      \<lparr>e_type = ''bad_request'', statusCode = 400, message = ''c'',
       probability = 8106479329266893 / 9007199254740992\<rparr>]"
  unfolding drift_types_def by (simp only: drift_weights)

lemma drift_errorTypes: "errorTypes (config (example_middleware drift_types)) = drift_types"
  by (simp add: example_middleware_def)

lemma drift_total:
  "totalProbability round_double (config (example_middleware drift_types)) =
     1632554864921805 / 1125899906842624"
proof -
  have "totalProbability round_double (config (example_middleware drift_types)) =
          foldl (\<lambda>sum errorType. round_double (sum + probability errorType)) 0 drift_types"
    by (simp only: totalProbability_def drift_errorTypes)
  also have "\<dots> =
          round_double (round_double (round_double (0 + 3152519739159347 / 9007199254740992)
            + 3602879701896397 / 18014398509481984) + 8106479329266893 / 9007199254740992)"
    by (simp only: drift_types_weights foldl.simps ErrorType.select_convs)
  also have "\<dots> = 1632554864921805 / 1125899906842624"
    by (simp add: round_double_eval)
  finally show ?thesis .
qed

lemma drift_draw:
  "round_double ((1 - 1 / 2 ^ 52) * (1632554864921805 / 1125899906842624)) =
     6530219459687219 / 4503599627370496"
  by (simp add: round_double_eval)

lemma drift_running:
  "running round_double drift_types (6530219459687219 / 4503599627370496) 1 =
     2476979795053773 / 2251799813685248"
  "running round_double drift_types (6530219459687219 / 4503599627370496) 2 =
     4053239664633447 / 4503599627370496"
  "running round_double drift_types (6530219459687219 / 4503599627370496) 3 =
     1 / 9007199254740992"
  unfolding drift_types_weights
  by (simp_all add: numeral_2_eq_2 numeral_3_eq_3 round_double_eval)

lemma drift_walk:
  "walk round_double drift_types (6530219459687219 / 4503599627370496) = None"
  unfolding drift_types_weights by (simp add: round_double_eval)

lemma drift_selection:
  "selectErrorType round_double (config (example_middleware drift_types)) (1 - 1 / 2 ^ 52) =
     Some (drift_types ! 0)"
  unfolding selectErrorType_def drift_total drift_errorTypes drift_draw drift_walk
  by (simp add: drift_types_weights)

text \<open>
  For a seed that is not negative the generator stays in \<open>[0, 1)\<close> and its state stays
  non-negative, so the whole stream does.
\<close>

lemma seededRandom_range:
  assumes "0 \<le> s"
  shows "0 \<le> fst (seededRandom s) \<and> fst (seededRandom s) < 1 \<and> 0 \<le> snd (seededRandom s)"
proof -
  have nn: "0 \<le> s * 9301 + 49297" using assms by simp
  then have a: "js_rem (s * 9301 + 49297) 233280 = (s * 9301 + 49297) mod 233280"
    by (cases "s * 9301 + 49297 = 0") (simp_all add: js_rem_def sgn_if)
  have "0 \<le> (s * 9301 + 49297) mod 233280" "(s * 9301 + 49297) mod 233280 < 233280"
    by simp_all
  then show ?thesis by (simp add: seededRandom_def Let_def a)
qed

section \<open>Determinism of generated records (C1)\<close>

text \<open>
  C1. The claim: for a fixed seed and schema the record at position \<open>i\<close> is the same on
  every call, so that \<open>generateBatch(50, 10)\<close> followed by \<open>generateBatch(0, 10)\<close> gives
  the first ten records of a fresh engine. The engine keeps one random stream for all
  calls: on the example engine the fresh batch and the batch after \<open>generateBatch(50, 10)\<close>
  differ at positions 1 and 6.
\<close>

theorem generateBatch_order_dependent:
  "field_values ''flag'' (fst (generateBatch fixed_runtime flag_engine 0 10)) =
     map (Some \<circ> VBool) [False, False, False, False, False, False, False, True, False, False]
   \<and> field_values ''flag''
       (fst (generateBatch fixed_runtime
               (snd (generateBatch fixed_runtime flag_engine 50 10)) 0 10)) =
     map (Some \<circ> VBool) [False, True, False, False, False, False, True, True, False, False]
   \<and> fst (generateBatch fixed_runtime
             (snd (generateBatch fixed_runtime flag_engine 50 10)) 0 10)
       \<noteq> fst (generateBatch fixed_runtime flag_engine 0 10)"
proof -
  let ?fresh = "fst (generateBatch fixed_runtime flag_engine 0 10)"
  let ?after = "fst (generateBatch fixed_runtime
                       (snd (generateBatch fixed_runtime flag_engine 50 10)) 0 10)"
  have a: "field_values ''flag'' ?fresh =
             map (Some \<circ> VBool) [False, False, False, False, False, False, False, True, False, False]"
    by (rule flag_batch_fresh)
  have b: "field_values ''flag'' ?after =
             map (Some \<circ> VBool) [False, True, False, False, False, False, True, True, False, False]"
    by (simp only: flag_batch_50 flag_batch_after)
  have "field_values ''flag'' ?after \<noteq> field_values ''flag'' ?fresh"
    by (simp only: a b) simp
  then have "?after \<noteq> ?fresh" by auto
  with a b show ?thesis by blast
qed

section \<open>Range and pagination of a batch (C2)\<close>

text \<open>
  C2, as the claim states it: when \<open>offset\<close> is at or beyond \<open>totalRecords\<close> the batch is
  empty and \<open>hasMore\<close> is false for any limit, a negative one included. On the example
  engine (1000 records) \<open>generateBatch(1000, -1)\<close> returns no record, but its clamped end
  index is 999, so \<open>hasMore\<close> is true and \<open>nextOffset\<close> is \<open>999\<close>.
\<close>

theorem generateBatch_negative_limit_hasMore:
  "fst (generateBatch fixed_runtime flag_engine 1000 (- 1)) =
     Inr \<lparr>records = [], hasMore = True, nextOffset = Some ''999'', totalCount = 1000\<rparr>"
  by (simp add: generateBatch_def flag_engine_fields batch_loop_ge or_undefined_def digits_10_999)

text \<open>
  C2, amended. For every offset and limit, a batch that \<open>generateBatch\<close> returns holds
  the records of exactly the indices from \<open>offset\<close> up to, not including,
  \<open>min (offset + limit) totalRecords\<close>, in order; \<open>hasMore\<close> is true iff that end index is
  below \<open>totalRecords\<close>; \<open>nextOffset\<close> is present iff \<open>hasMore\<close>, and is then the end index
  in decimal; \<open>totalCount\<close> is \<open>totalRecords\<close>. When \<open>offset\<close> is at or beyond
  \<open>totalRecords\<close> the call returns, with no record, and with \<open>hasMore\<close> false when the
  limit is not negative.
\<close>

theorem generateBatch_range:
  "(\<forall>r. fst (generateBatch rt g offset limit) = Inr r \<longrightarrow>
       length (records r) = nat (min (offset + limit) (totalRecords (state g)) - offset)
     \<and> (\<forall>k<length (records r).
           \<exists>s. fst (generateRecord rt (state g) (offset + int k) s) = Inr (records r ! k))
     \<and> (hasMore r \<longleftrightarrow> min (offset + limit) (totalRecords (state g)) < totalRecords (state g))
     \<and> nextOffset r =
         (if hasMore r
          then Some (toString_radix 10 (min (offset + limit) (totalRecords (state g))))
          else None)
     \<and> (nextOffset r \<noteq> None \<longleftrightarrow> hasMore r)
     \<and> totalCount r = totalRecords (state g))
   \<and> (totalRecords (state g) \<le> offset \<longrightarrow>
        (\<exists>r. fst (generateBatch rt g offset limit) = Inr r \<and> records r = []
              \<and> (0 \<le> limit \<longrightarrow> \<not> hasMore r)))"
proof -
  let ?e = "min (offset + limit) (totalRecords (state g))"
  have returned: "length (records r) = nat (?e - offset)
     \<and> (\<forall>k<length (records r).
           \<exists>s. fst (generateRecord rt (state g) (offset + int k) s) = Inr (records r ! k))
     \<and> (hasMore r \<longleftrightarrow> ?e < totalRecords (state g))
     \<and> nextOffset r = (if hasMore r then Some (toString_radix 10 ?e) else None)
     \<and> (nextOffset r \<noteq> None \<longleftrightarrow> hasMore r)
     \<and> totalCount r = totalRecords (state g)"
    if ok: "fst (generateBatch rt g offset limit) = Inr r" for r
  proof -
    from generateBatch_Inr [OF ok] obtain recs s1 where
      loop: "batch_loop rt (state g) offset ?e [] (currentSeed g) = (Inr recs, s1)"
      and r: "r = \<lparr>records = recs, hasMore = (?e < totalRecords (state g)),
                    nextOffset = (if ?e < totalRecords (state g)
                                  then Some (toString_radix 10 ?e) else None),
                    totalCount = totalRecords (state g)\<rparr>"
      by blast
    from batch_loop_records [OF loop] obtain new where
      new: "recs = [] @ new" "length new = nat (?e - offset)"
        "\<forall>k<length new. \<exists>s0. fst (generateRecord rt (state g) (offset + int k) s0) = Inr (new ! k)"
      by blast
    have c1: "length (records r) = nat (?e - offset)" using new by (simp add: r)
    have c2: "\<forall>k<length (records r).
            \<exists>s. fst (generateRecord rt (state g) (offset + int k) s) = Inr (records r ! k)"
      using new by (simp add: r)
    have c3: "hasMore r \<longleftrightarrow> ?e < totalRecords (state g)" by (simp only: r BatchResult.simps)
    have c4: "nextOffset r = (if hasMore r then Some (toString_radix 10 ?e) else None)"
      by (simp only: r BatchResult.simps)
    have c5: "nextOffset r \<noteq> None \<longleftrightarrow> hasMore r" using c4 by (cases "hasMore r") simp_all
    have c6: "totalCount r = totalRecords (state g)" by (simp only: r BatchResult.simps)
    from c1 c2 c3 c4 c5 c6 show ?thesis by blast
  qed
  have beyond: "\<exists>r. fst (generateBatch rt g offset limit) = Inr r \<and> records r = []
              \<and> (0 \<le> limit \<longrightarrow> \<not> hasMore r)"
    if far: "totalRecords (state g) \<le> offset"
  proof -
    have "\<not> offset < ?e" using far by simp
    then have loop: "batch_loop rt (state g) offset ?e [] (currentSeed g) = (Inr [], currentSeed g)"
      by (rule batch_loop_ge)
    have "0 \<le> limit \<longrightarrow> \<not> ?e < totalRecords (state g)" using far by auto
    then show ?thesis using loop by (simp add: generateBatch_def Let_def)
  qed
  from returned beyond show ?thesis by blast
qed

theorem generateBatch_range_witness:
  "(\<exists>r. fst (generateBatch fixed_runtime flag_engine 999 5) = Inr r
        \<and> length (records r) = 1 \<and> \<not> hasMore r \<and> nextOffset r = None \<and> totalCount r = 1000)
   \<and> (\<exists>r. fst (generateBatch fixed_runtime flag_engine 1000 5) = Inr r \<and> records r = []
          \<and> \<not> hasMore r)"
proof -
  have "fst (generateBatch fixed_runtime flag_engine 999 5) =
          Inr \<lparr>records = [[(''id'', VStr (generateDeterministicUuid 1041)),
                            (''flag'', VBool False)]],
               hasMore = False, nextOffset = None, totalCount = 1000\<rparr>"
    by (simp add: generateBatch_def flag_engine_fields flag_step batch_loop_ge js_rem_def
          or_undefined_def)
  with generateBatch_range [of fixed_runtime flag_engine 999 5]
  have a: "\<exists>r. fst (generateBatch fixed_runtime flag_engine 999 5) = Inr r
        \<and> length (records r) = 1 \<and> \<not> hasMore r \<and> nextOffset r = None \<and> totalCount r = 1000"
    by (simp add: flag_engine_fields)
  have "totalRecords (state flag_engine) \<le> 1000" by (simp add: flag_engine_fields)
  with generateBatch_range [of fixed_runtime flag_engine 1000 5]
  have b: "\<exists>r. fst (generateBatch fixed_runtime flag_engine 1000 5) = Inr r \<and> records r = []
          \<and> \<not> hasMore r"
    by auto
  from a b show ?thesis by blast
qed

section \<open>Exceptions of the generation path (C3)\<close>

text \<open>
  C3. The claim: for every schema, invalid ones included, \<open>generateBatch\<close> never throws;
  schema errors come out of \<open>validateSchema\<close> only. \<open>generateFieldValue\<close> ends its
  \<open>switch\<close> with a \<open>throw\<close> and \<open>generateEnum\<close> begins with one: the first record of the
  schemas \<open>{x: {type: 'bogus'}}\<close>, \<open>{status: {type: 'enum'}}\<close> and
  \<open>{emptyEnum: {type: 'enum', constraints: {enum: []}}}\<close> raises an \<open>Error\<close>, for the last
  one in the very call \<open>generateBatch(0, 5)\<close> that the unit tests expect not to throw.
\<close>

theorem generateBatch_throws_on_invalid_schema:
  "fst (generateBatch fixed_runtime bogus_engine 0 1) = Inl (Error ''Unsupported field type: bogus'')
   \<and> fst (generateBatch fixed_runtime status_engine 0 1) =
       Inl (Error ''Enum field must have enum constraint with values'')
   \<and> fst (generateBatch fixed_runtime empty_enum_engine 0 5) =
       Inl (Error ''Enum field must have enum constraint with values'')"
  by (simp add: generateBatch_def bogus_engine_fields status_engine_fields empty_enum_engine_fields
        batch_loop_lt generateRecord_def generateFieldValue_def dispatch_type_def typed_field_def
        status_schema_def generateEnum_def no_constraints_def)

section \<open>Schema validation (C4)\<close>

text \<open>
  C4, as the claim states it: \<open>validateSchema\<close> returns a result for every schema without
  throwing, and \<open>valid\<close> is false exactly when some field has an unknown or missing type,
  an enum field lacks a non-empty enum constraint, a declared numeric \<open>min\<close> exceeds
  \<open>max\<close>, or a declared length is negative. The bounds are declared \<open>number | string\<close> and
  the source compares them with \<open>min > max\<close> whatever they are: the schema
  \<open>{d: {type: 'iso8601', constraints: {min: '2025-01-01', max: '2024-01-01'}}}\<close> has none
  of the four defects, and is rejected. And \<open>validateSchema(null)\<close> and
  \<open>validateSchema({field1: null})\<close> throw a \<open>TypeError\<close>.
\<close>

theorem validateSchema_rejects_string_bounds:
  "validateSchema no_numbers (as_object date_schema) =
     Inr \<lparr>valid = False, errors = [''Field 'd' min constraint cannot be greater than max'']\<rparr>
   \<and> \<not> list_ex (spec_invalid_field \<circ> snd) date_schema
   \<and> validateSchema no_numbers NullSchema =
       Inl (TypeError ''Cannot convert undefined or null to object'')
   \<and> validateSchema no_numbers (SchemaObject [(''field1'', NullField)]) =
       Inl (TypeError ''Cannot read properties of null (reading 'type')'')"
  by (simp add: validateSchema_object date_schema_def field_errors_def typed_field_def
        missing_type_def validTypes_def min_exceeds_max_def negative_length_def no_constraints_def
        spec_invalid_field_def unknown_or_missing_type_def numeric_min_exceeds_max_def)

text \<open>
  C4, amended. For every schema that is an object whose field definitions are objects,
  \<open>validateSchema\<close> returns \<open>{valid, errors}\<close>, a function of the schema alone, with
  \<open>valid\<close> true iff \<open>errors\<close> is empty; \<open>valid\<close> is false exactly when some field has an
  unknown or missing type, an enum field lacks a non-empty enum constraint, a declared
  \<open>min\<close> exceeds a declared \<open>max\<close> under the comparison \<open>min > max\<close> of JavaScript (numbers
  numerically, two strings by their characters, a number and a string after conversion
  of the string), or a declared length is negative. The schema \<open>{status: {type: 'enum'}}\<close>
  is invalid with the one error that names the enum constraint, and
  \<open>{a: {type: 'number', constraints: {min: 5, max: 1}}}\<close> is invalid.
\<close>

theorem validateSchema_valid_iff:
  "(\<exists>r. validateSchema toNumber (as_object sc) = Inr r
        \<and> (valid r \<longleftrightarrow> \<not> list_ex (invalid_field toNumber \<circ> snd) sc)
        \<and> (valid r \<longleftrightarrow> errors r = []))
   \<and> validateSchema toNumber (as_object status_schema) =
       Inr \<lparr>valid = False,
            errors = [''Field 'status' of type 'enum' must have enum constraint with values'']\<rparr>
   \<and> validateSchema toNumber (as_object inverted_number_schema) =
       Inr \<lparr>valid = False, errors = [''Field 'a' min constraint cannot be greater than max'']\<rparr>"
proof -
  let ?r = "\<lparr>valid = (\<forall>(n, f)\<in>set sc. field_errors toNumber n f = []),
             errors = concat (map (\<lambda>(n, f). field_errors toNumber n f) sc)\<rparr>"
  have a: "validateSchema toNumber (as_object sc) = Inr ?r" by (rule validateSchema_object)
  have b: "valid ?r \<longleftrightarrow> \<not> list_ex (invalid_field toNumber \<circ> snd) sc"
    using no_field_errors_iff [of sc toNumber] by simp
  have c: "valid ?r \<longleftrightarrow> errors ?r = []" by auto
  from a b c have "\<exists>r. validateSchema toNumber (as_object sc) = Inr r
        \<and> (valid r \<longleftrightarrow> \<not> list_ex (invalid_field toNumber \<circ> snd) sc)
        \<and> (valid r \<longleftrightarrow> errors r = [])" by blast
  with status_schema_result inverted_number_schema_result show ?thesis by blast
qed

theorem validateSchema_valid_iff_witness:
  "validateSchema no_numbers (as_object [(''flag'', boolean_field)]) =
     Inr \<lparr>valid = True, errors = []\<rparr>
   \<and> \<not> list_ex (invalid_field no_numbers \<circ> snd) [(''flag'', boolean_field)]"
proof -
  have n: "\<not> list_ex (invalid_field no_numbers \<circ> snd) [(''flag'', boolean_field)]"
    by (simp add: invalid_field_def unknown_or_missing_type_def boolean_field_def validTypes_def)
  with validateSchema_valid_iff [of no_numbers "[(''flag'', boolean_field)]"]
  obtain r where r: "validateSchema no_numbers (as_object [(''flag'', boolean_field)]) = Inr r"
    "valid r" "errors r = []" by blast
  then have "r = \<lparr>valid = True, errors = []\<rparr>" by simp
  with r(1) n show ?thesis by simp
qed

section \<open>Reset (C5)\<close>

text \<open>
  C5. \<open>reset\<close> replaces exactly the fields of the state that the partial configuration
  provides and keeps the others, sets \<open>currentOffset\<close> and \<open>generatedCount\<close> to 0 in every
  case, and rebinds the random stream to the new seed exactly when a seed is provided;
  \<open>getState().currentOffset\<close> is 0 right after.
\<close>

theorem reset_frame:
  "totalRecords (state (reset g c)) =
     (case p_totalRecords c of None \<Rightarrow> totalRecords (state g) | Some n \<Rightarrow> n)
   \<and> schema (state (reset g c)) =
       (case p_schema c of None \<Rightarrow> schema (state g) | Some sc \<Rightarrow> sc)
   \<and> seed (state (reset g c)) = (case p_seed c of None \<Rightarrow> seed (state g) | Some k \<Rightarrow> k)
   \<and> currentSeed (reset g c) =
       (case p_seed c of None \<Rightarrow> currentSeed g | Some k \<Rightarrow> createSeededRandom k)
   \<and> currentOffset (state (reset g c)) = 0
   \<and> generatedCount (state (reset g c)) = 0
   \<and> currentOffset (getState (reset g c)) = 0"
  by (simp add: reset_def getState_def Let_def split: option.splits)

section \<open>Deterministic identifiers (C6)\<close>

text \<open>
  C6. The claim: the identifier is a function of seed and index alone, has the canonical
  8-4-4-4-12 hexadecimal grouping, and consumes no random draw. The last group is
  \<open>seedStr.slice(0, 12)\<close> of a string padded to 8 characters only: for seed 42 and index 0
  the identifier is \<open>0000002a-0000-4000-8000-0000002a\<close>, 32 characters with a last
  group of 8 (and so for every \<open>seed + index\<close> from 0 below \<open>2 ^ 32\<close>, lemma
  \<open>uuid_length_small\<close>). The identifier does not read or move the random stream: neither
  \<open>generateId\<close> nor \<open>generateDeterministicUuid\<close> takes it.
\<close>

theorem generateId_not_uuid_shaped:
  "generateId (state flag_engine) 0 = ''0000002a-0000-4000-8000-0000002a''
   \<and> length (generateId (state flag_engine) 0) = 32
   \<and> \<not> uuid_shaped (generateId (state flag_engine) 0)"
  by (simp add: generateId_def flag_engine_def new_DataGenerator_def uuid_42 uuid_shaped_def)

section \<open>Range of the random stream (C7)\<close>

text \<open>
  C7. The claim: for every integer seed, negative ones included, every value of the
  stream lies in \<open>[0, 1)\<close>. The remainder of the source keeps the sign of a negative
  dividend: from the seed \<open>-6\<close> the first value is \<open>-6509 / 233280\<close>, below 0.
\<close>

theorem seededRandom_negative_seed:
  "fst (seededRandom (createSeededRandom (- 6))) = - (6509 / 233280)
   \<and> \<not> 0 \<le> fst (seededRandom (createSeededRandom (- 6)))"
  by (simp add: seededRandom_def createSeededRandom_def js_rem_def)

section \<open>Bounds of the sampled latency (C8)\<close>

text \<open>
  C8. The claim: for \<open>0 \<le> minMs \<le> maxMs\<close> and each distribution, every sample lies in
  \<open>[minMs, maxMs]\<close> for all draws in \<open>[0, 1)\<close>. With \<open>minMs = maxMs = 100\<close> and a first draw
  of 0, \<open>Math.log(0)\<close> is \<open>-Infinity\<close>: the normal sampler multiplies an infinity by the
  standard deviation 0, the exponential sampler divides an infinity by the infinite
  rate \<open>1 / 0\<close>, and both return \<open>NaN\<close>, which the final \<open>Math.max\<close>/\<open>Math.min\<close> hands on.
  For a draw above 0 the sample is in range (lemma \<open>latency_in_range\<close>).
\<close>

theorem generateLatency_NaN:
  "generateLatency (constant_latency ''normal'') 0 0 = NaN
   \<and> generateLatency (constant_latency ''exponential'') 0 0 = NaN"
  by (simp add: generateLatency_def constant_latency_def generateNormalDistribution_def
        generateExponentialDistribution_def signed_inf_def)

section \<open>Error selector (C9)\<close>

text \<open>
  C9, as the claim states it: when the weights sum to a positive total, the selector
  returns the element at which the running value, a draw in \<open>[0, total)\<close> less the
  weights so far, goes non-positive. In doubles the subtractions are rounded and the
  running value can stay positive to the end of the list; the selector then falls back
  to the first element. With the weights 0.35, 0.2, 0.9 and the draw \<open>1 - 2^-52\<close> the
  running values are 1.1, 0.9000000000000001 and \<open>2^-53\<close>, all positive, and the
  selector returns the first error type.
\<close>

theorem selectErrorType_falls_back:
  "selectErrorType round_double (config (example_middleware drift_types)) (1 - 1 / 2 ^ 52) =
     Some (drift_types ! 0)
   \<and> totalProbability round_double (config (example_middleware drift_types)) =
       1632554864921805 / 1125899906842624
   \<and> round_double ((1 - 1 / 2 ^ 52) * (1632554864921805 / 1125899906842624)) =
       6530219459687219 / 4503599627370496
   \<and> running round_double drift_types (6530219459687219 / 4503599627370496) 1 =
       2476979795053773 / 2251799813685248
   \<and> running round_double drift_types (6530219459687219 / 4503599627370496) 2 =
       4053239664633447 / 4503599627370496
   \<and> running round_double drift_types (6530219459687219 / 4503599627370496) 3 =
       1 / 9007199254740992"
  by (intro conjI drift_selection drift_total drift_draw drift_running)

text \<open>
  C9, amended. The selector has no \<open>throw\<close>: it is a total function. When the gating draw
  \<open>u\<close> exceeds \<open>errorRate\<close> no error is injected, and a request that passes the switch, the
  route filter and the gate gets what the selector returns. When the sum of the weights,
  as the selector computes it, is zero the selector returns \<open>null\<close>; otherwise it returns
  an element of \<open>errorTypes\<close>: the one at the first position where the running value, the
  rounded draw \<open>u' * total\<close> less the weights so far, is not positive, or the first element
  of the list when rounding keeps the running value positive to the end. For non-negative
  weights that are doubles, a draw \<open>u'\<close> in \<open>[0, 1)\<close> and a rounding that keeps 0, is
  monotone and keeps what it has rounded, the computed sum is zero iff the exact sum is,
  and the rounded draw lies in \<open>[0, total]\<close>.
\<close>

theorem error_selector:
  "(errorRate (config m) < u \<longrightarrow> fst (injectErrors fl m path u u') = None)
    \<and> (e_enabled (config m) \<and> shouldApplyErrors (config m) path \<and> u \<le> errorRate (config m) \<longrightarrow>
         fst (injectErrors fl m path u u') = selectErrorType fl (config m) u')
    \<and> (totalProbability fl (config m) = 0 \<longrightarrow>
         selectErrorType fl (config m) u' = None \<and> fst (injectErrors fl m path u u') = None)
    \<and> (totalProbability fl (config m) \<noteq> 0 \<longrightarrow>
         (\<exists>k<length (errorTypes (config m)).
            selectErrorType fl (config m) u' = Some (errorTypes (config m) ! k)
            \<and> ((running fl (errorTypes (config m))
                   (fl (u' * totalProbability fl (config m))) (Suc k) \<le> 0
                 \<and> (\<forall>j<k. 0 < running fl (errorTypes (config m))
                               (fl (u' * totalProbability fl (config m))) (Suc j)))
               \<or> (k = 0
                   \<and> (\<forall>j<length (errorTypes (config m)).
                         0 < running fl (errorTypes (config m))
                               (fl (u' * totalProbability fl (config m))) (Suc j))))))
    \<and> (rounding fl
        \<and> (\<forall>e\<in>set (errorTypes (config m)). 0 \<le> probability e \<and> fl (probability e) = probability e)
        \<and> 0 \<le> u' \<and> u' < 1 \<longrightarrow>
         (totalProbability fl (config m) = 0
            \<longleftrightarrow> sum_list (map probability (errorTypes (config m))) = 0)
         \<and> 0 \<le> fl (u' * totalProbability fl (config m))
         \<and> fl (u' * totalProbability fl (config m)) \<le> totalProbability fl (config m))"
proof -
  have zero: "selectErrorType fl (config m) u' = None \<and> fst (injectErrors fl m path u u') = None"
    if "totalProbability fl (config m) = 0"
  proof -
    from that have "selectErrorType fl (config m) u' = None" by (rule selectErrorType_zero)
    with injectErrors_select [of fl m path u u'] show ?thesis by auto
  qed
  from zero injectErrors_gate [of m u fl path u'] injectErrors_passes [of m path u fl u']
    selectErrorType_nonzero [of fl "config m" u'] total_links [of fl "config m" u']
  show ?thesis by blast
qed

theorem error_selector_witness:
  "fst (injectErrors exact (example_middleware getDefaultErrorTypes) ''/api/records'' (1 / 2) (1 / 2))
     = None
   \<and> selectErrorType exact (config (example_middleware getDefaultErrorTypes)) (1 / 2)
       = Some (getDefaultErrorTypes ! 1)
   \<and> fst (injectErrors exact (example_middleware getDefaultErrorTypes) ''/api/records''
            (1 / 20) (1 / 2))
       = Some (getDefaultErrorTypes ! 1)
   \<and> selectErrorType exact (config (example_middleware [])) (1 / 2) = None
   \<and> totalProbability exact (config (example_middleware getDefaultErrorTypes)) = 1
   \<and> exact (1 / 2 * totalProbability exact (config (example_middleware getDefaultErrorTypes)))
       \<le> totalProbability exact (config (example_middleware getDefaultErrorTypes))"
proof -
  let ?m = "example_middleware getDefaultErrorTypes"
  have ets: "errorTypes (config ?m) = getDefaultErrorTypes" "errorRate (config ?m) = 1 / 10"
    "e_enabled (config ?m)"
    by (simp_all add: example_middleware_def)
  have h: "\<forall>e\<in>set (errorTypes (config ?m)).
             0 \<le> probability e \<and> exact (probability e) = probability e"
    unfolding ets by (simp add: getDefaultErrorTypes_def exact_def)
  have route: "shouldApplyErrors (config ?m) ''/api/records''"
    by (simp add: shouldApplyErrors_def route_selected_def example_middleware_def)
  have tot: "totalProbability exact (config ?m) = 1"
    unfolding totalProbability_def ets by (simp add: getDefaultErrorTypes_def exact_def)
  have sel: "selectErrorType exact (config ?m) (1 / 2) = Some (getDefaultErrorTypes ! 1)"
    unfolding selectErrorType_def tot ets by (simp add: getDefaultErrorTypes_def exact_def)
  from error_selector [of ?m "1 / 2" exact "''/api/records''" "1 / 2"] ets
  have a: "fst (injectErrors exact ?m ''/api/records'' (1 / 2) (1 / 2)) = None" by simp
  from error_selector [of ?m "1 / 20" exact "''/api/records''" "1 / 2"] ets route sel
  have b: "fst (injectErrors exact ?m ''/api/records'' (1 / 20) (1 / 2))
             = Some (getDefaultErrorTypes ! 1)"
    by simp
  from error_selector [of ?m "1 / 20" exact "''/api/records''" "1 / 2"] h rounding_exact
  have d: "exact (1 / 2 * totalProbability exact (config ?m)) \<le> totalProbability exact (config ?m)"
    by simp
  have t0: "totalProbability exact (config (example_middleware [])) = 0"
    by (simp add: totalProbability_def example_middleware_def)
  from error_selector [of "example_middleware []" 0 exact "''/api/records''" "1 / 2"] t0
  have c: "selectErrorType exact (config (example_middleware [])) (1 / 2) = None"
    by simp
  from a sel b c tot d show ?thesis by blast
qed

section \<open>Bookkeeping counters (C10)\<close>

text \<open>
  C10. In every state an engine can reach, \<open>currentOffset\<close> and \<open>generatedCount\<close> are 0,
  and so are the values \<open>getState\<close> and \<open>getMetrics\<close> report: the constructor and \<open>reset\<close>
  set them to 0 and no other operation writes them.
\<close>

theorem counters_always_zero:
  assumes "reachable g"
  shows "currentOffset (state g) = 0 \<and> generatedCount (state g) = 0
         \<and> currentOffset (getState g) = 0 \<and> generatedCount (getState g) = 0
         \<and> m_currentOffset (getMetrics g) = 0 \<and> m_generatedCount (getMetrics g) = 0"
proof -
  from assms have "currentOffset (state g) = 0 \<and> generatedCount (state g) = 0"
  proof (induction rule: reachable.induct)
    case (constructed rt config)
    show ?case by (simp add: new_DataGenerator_def Let_def)
  next
    case (operated g rt op)
    then show ?case
      by (cases op) (simp_all add: generateBatch_state reset_counters updateSchema_def)
  qed
  then show ?thesis by (simp add: getState_def getMetrics_def)
qed

theorem counters_always_zero_witness:
  "reachable (apply_operation fixed_runtime flag_engine (GenerateBatch 50 10))
   \<and> currentOffset (getState (apply_operation fixed_runtime flag_engine (GenerateBatch 50 10))) = 0
   \<and> m_generatedCount
       (getMetrics (apply_operation fixed_runtime flag_engine (GenerateBatch 50 10))) = 0"
proof -
  have r: "reachable (apply_operation fixed_runtime flag_engine (GenerateBatch 50 10))"
    unfolding flag_engine_def by (intro reachable.intros)
  from counters_always_zero [OF r] r show ?thesis by simp
qed

end
